theory Spec2Isabelle
  imports Complex_Main "HOL-Library.Char_ord" "HOL-Library.List_Lexorder"
begin

section \<open>Data model (facturacion/models.py)\<close>

text \<open>
  Dates are compared chronologically by the source, so a date is its day ordinal.
  A point in time is a day together with the second within that day.  Amounts are
  Python \<open>Decimal\<close> values, taken as the rationals they denote: their sums and products
  are exact, as Python's are as long as a result has at most 28 significant digits, the
  precision of its default decimal context.
  Character strings are lists of characters, one element per code point.
\<close>

type_synonym date = int
type_synonym datetime = "date \<times> nat"
type_synonym Decimal = rat

definition date_of :: "datetime \<Rightarrow> date" where
  "date_of t = fst t"

record User =
  uid :: nat
  is_staff :: bool
  is_superuser :: bool

text \<open>
  An instance that has not been saved yet has no primary key, and \<open>TimbradoConfig.clean\<close>
  asks for it, so the key of a configuration is optional.  The table of configurations is
  kept in the order of the model's default ordering (newest first).
\<close>

record TimbradoConfig =
  pk :: "nat option"
  establecimiento :: string
  punto_expedicion :: string
  numero_timbrado :: "string option"
  fecha_inicio :: date
  fecha_vencimiento :: date
  activo :: bool
  creado_por :: "nat option"
  fecha_creacion :: datetime

record Cliente =
  pk :: nat
  nombre :: string
  ruc_ci :: string
  direccion :: string
  telefono :: string
  email :: "string option"
  activo :: bool
  fecha_creacion :: datetime
  fecha_actualizacion :: datetime

record Factura =
  pk :: nat
  numero_factura :: string
  cliente_id :: nat
  fecha_emision :: date
  subtotal :: Decimal
  iva :: Decimal
  total :: Decimal
  estado :: string
  observaciones :: "string option"
  timbrado :: "string option"
  timbrado_fecha :: "date option"
  timbrado_vencimiento :: "date option"
  timbrado_por :: "nat option"
  timbrado_fecha_registro :: "datetime option"
  activo :: bool
  fecha_creacion :: datetime
  fecha_actualizacion :: datetime

record DetalleFactura =
  pk :: "nat option"
  factura_id :: "nat option"
  producto :: string
  cantidad :: int
  precio_unitario :: Decimal
  subtotal :: Decimal

subsection \<open>Requests, responses and flash messages (facturacion/views.py)\<close>

datatype metodo = GET | POST

datatype nivel = INFO | SUCCESS | ERROR

text \<open>
  The flash messages of the modelled views, one constructor per message text:
  \<^item> \<open>Ya_pagada\<close>: "La factura ya esta marcada como pagada";
  \<^item> \<open>No_pagar_anulada\<close>: "No se puede marcar como pagada una factura anulada";
  \<^item> \<open>Marcada_pagada n\<close>: "Factura n marcada como pagada";
  \<^item> \<open>Factura_no_encontrada\<close>: "Factura no encontrada";
  \<^item> \<open>Ya_anulada\<close>: "Esta factura ya esta anulada.";
  \<^item> \<open>Sesion_expirada\<close>: "Sesion expirada. Intente nuevamente.";
  \<^item> \<open>Captcha_incorrecto\<close>: "Captcha incorrecto. Intente nuevamente.";
  \<^item> \<open>Factura_anulada n\<close>: "Factura n anulada exitosamente";
  \<^item> \<open>Cliente_con_facturas nombre c\<close>: "No se puede eliminar el cliente "nombre" porque
    tiene c factura(s) asociada(s)";
  \<^item> \<open>Cliente_eliminado nombre\<close>: "Cliente "nombre" eliminado exitosamente";
  \<^item> \<open>Timbrado_guardado\<close>: "Configuracion de timbrado guardada exitosamente";
  \<^item> \<open>Corrija_errores\<close>: "Corrija los errores en el formulario";
  \<^item> \<open>Error_interno_servidor\<close>: "Error interno del servidor";
  \<^item> \<open>Sin_timbrado\<close>: "No se puede crear facturas: No hay timbrado configurado en el
    sistema";
  \<^item> \<open>Timbrado_no_vigente d\<close>: "No se puede crear facturas: El timbrado aun no esta vigente
    (inicia el d)";
  \<^item> \<open>Timbrado_vencido d\<close>: "No se puede crear facturas: El timbrado esta vencido (vencio
    el d)";
  \<^item> \<open>Factura_creada n\<close>: "Factura n creada exitosamente";
  \<^item> \<open>Corrija_errores_formulario\<close>: "Por favor corrija los errores en el formulario";
  \<^item> \<open>Error_interno_crear\<close>: "Error interno al crear la factura".
\<close>

datatype mensaje =
    Ya_pagada
  | No_pagar_anulada
  | Marcada_pagada string
  | Factura_no_encontrada
  | Ya_anulada
  | Sesion_expirada
  | Captcha_incorrecto
  | Factura_anulada string
  | Cliente_con_facturas string nat
  | Cliente_eliminado string
  | Timbrado_guardado
  | Corrija_errores
  | Error_interno_servidor
  | Sin_timbrado
  | Timbrado_no_vigente date
  | Timbrado_vencido date
  | Factura_creada string
  | Corrija_errores_formulario
  | Error_interno_crear

datatype respuesta =
    Http404
  | Redirect string "nat option"
  | Render string

subsection \<open>Invoice predicates and transitions\<close>

text \<open>\<open>Factura.tiene_timbrado\<close>: \<open>bool(self.timbrado)\<close>, false for \<open>None\<close> and for the empty string.\<close>

definition tiene_timbrado :: "Factura \<Rightarrow> bool" where
  "tiene_timbrado self = (case timbrado self of None \<Rightarrow> False | Some t \<Rightarrow> t \<noteq> [])"

text \<open>
  \<open>Factura.timbrado_vigente\<close>.  The method reads the clock into \<open>hoy\<close> and then compares
  only the invoice's own dates; the clock value is the first argument here.
\<close>

definition timbrado_vigente :: "datetime \<Rightarrow> Factura \<Rightarrow> bool" where
  "timbrado_vigente now self =
     (if \<not> tiene_timbrado self then False
      else
        (let hoy = date_of now in
         if (case timbrado_fecha self of None \<Rightarrow> False | Some d \<Rightarrow> fecha_emision self < d)
           then False
         else if (case timbrado_vencimiento self of None \<Rightarrow> False | Some d \<Rightarrow> fecha_emision self > d)
           then False
         else True))"

text \<open>
  \<open>get_object_or_404(Factura, pk=k)\<close>: the row with that primary key, if any.
\<close>

definition get_factura :: "nat \<Rightarrow> Factura list \<Rightarrow> Factura option" where
  "get_factura k fs = find (\<lambda>f. Factura.pk f = k) fs"






subsection \<open>Voiding an invoice behind an arithmetic challenge\<close>





subsection \<open>Deleting a customer\<close>

text \<open>
  \<open>Cliente.save()\<close> on a loaded row.  \<open>fecha_actualizacion\<close> is declared \<open>auto_now\<close>, so
  the save refreshes it.
\<close>

definition Cliente_save :: "datetime \<Rightarrow> Cliente \<Rightarrow> Cliente list \<Rightarrow> Cliente \<times> Cliente list" where
  "Cliente_save now self cs =
     (let self' = self\<lparr>Cliente.fecha_actualizacion := now\<rparr>
      in (self', map (\<lambda>r. if Cliente.pk r = Cliente.pk self' then self' else r) cs))"

definition get_cliente :: "nat \<Rightarrow> Cliente list \<Rightarrow> Cliente option" where
  "get_cliente k cs = find (\<lambda>c. Cliente.pk c = k) cs"

text \<open>\<open>cliente.facturas.filter(activo=True).count()\<close>.\<close>

definition facturas_activas_de :: "Cliente \<Rightarrow> Factura list \<Rightarrow> nat" where
  "facturas_activas_de cliente fs =
     length (filter (\<lambda>f. cliente_id f = Cliente.pk cliente \<and> Factura.activo f) fs)"

definition cliente_eliminar ::
  "datetime \<Rightarrow> metodo \<Rightarrow> nat \<Rightarrow> Cliente list \<Rightarrow> Factura list
     \<Rightarrow> Cliente list \<times> (nivel \<times> mensaje) list \<times> respuesta" where
  "cliente_eliminar now method k cs fs =
     (case get_cliente k cs of
        None \<Rightarrow> (cs, [], Http404)
      | Some cliente \<Rightarrow>
          (let facturas_activas = facturas_activas_de cliente fs in
           if method = POST then
             if facturas_activas > 0 then
               (cs, [(ERROR, Cliente_con_facturas (nombre cliente) facturas_activas)],
                Redirect ''facturacion:cliente_lista'' None)
             else
               (let nombre = nombre cliente;
                    (cliente', cs') = Cliente_save now (cliente\<lparr>Cliente.activo := False\<rparr>) cs
                in (cs', [(SUCCESS, Cliente_eliminado nombre)],
                    Redirect ''facturacion:cliente_lista'' None))
           else (cs, [], Render ''facturacion/cliente_confirmar_eliminar.html'')))"


subsection \<open>The global timbrado configuration\<close>

text \<open>\<open>TimbradoConfig.get_activo\<close>: \<open>filter(activo=True).first()\<close>.\<close>

definition get_activo :: "TimbradoConfig list \<Rightarrow> TimbradoConfig option" where
  "get_activo cfgs = find TimbradoConfig.activo cfgs"

text \<open>
  What \<open>TimbradoConfig.clean\<close> can raise: its two validation errors, and the \<open>TypeError\<close> of
  comparing a date with \<open>None\<close>.
\<close>

datatype excepcion = Ya_existe_activa | Vencimiento_no_posterior | TypeError

text \<open>
  \<open>TimbradoConfig.clean\<close>, on the four attributes of the instance that it reads.
  \<open>if self.pk\<close> is Python truthiness: a missing key and the key 0 are both false.  The two
  dates are compared only when the check of the active rows has not raised.  A date is
  \<open>None\<close> on an unsaved instance that was never given one, and the comparison then raises
  \<open>TypeError\<close>.
\<close>

definition TimbradoConfig_clean_atributos ::
  "TimbradoConfig list \<Rightarrow> bool \<Rightarrow> nat option \<Rightarrow> date option \<Rightarrow> date option
     \<Rightarrow> excepcion + unit" where
  "TimbradoConfig_clean_atributos cfgs self_activo self_pk self_inicio self_vencimiento =
     (if self_activo
         \<and> (let existe_activo = filter TimbradoConfig.activo cfgs;
                 existe_activo =
                   (if (case self_pk of None \<Rightarrow> False | Some k \<Rightarrow> k \<noteq> 0)
                    then filter (\<lambda>r. TimbradoConfig.pk r \<noteq> self_pk) existe_activo
                    else existe_activo)
             in existe_activo \<noteq> [])
      then Inl Ya_existe_activa
      else
        (case (self_vencimiento, self_inicio) of
           (Some venc, Some inicio) \<Rightarrow>
             if venc \<le> inicio then Inl Vencimiento_no_posterior else Inr ()
         | _ \<Rightarrow> Inl TypeError))"

text \<open>\<open>TimbradoConfig.clean\<close> on an instance that carries both dates, as every stored row does.\<close>

definition TimbradoConfig_clean :: "TimbradoConfig list \<Rightarrow> TimbradoConfig \<Rightarrow> excepcion + unit" where
  "TimbradoConfig_clean cfgs self =
     TimbradoConfig_clean_atributos cfgs (TimbradoConfig.activo self) (TimbradoConfig.pk self)
       (Some (fecha_inicio self)) (Some (fecha_vencimiento self))"

text \<open>
  \<open>save()\<close> of a configuration.  An instance without a key is inserted under a fresh key; an
  instance with a key rewrites the row of that key, or is inserted when there is none.  The
  creation timestamp is declared \<open>auto_now_add\<close>: it is set on insertion, and the new row is
  then the newest one.
\<close>

definition nuevo_pk :: "TimbradoConfig list \<Rightarrow> nat" where
  "nuevo_pk cfgs =
     Suc (foldr max (map (\<lambda>r. case TimbradoConfig.pk r of None \<Rightarrow> 0 | Some k \<Rightarrow> k) cfgs) 0)"

definition TimbradoConfig_save :: "datetime \<Rightarrow> TimbradoConfig \<Rightarrow> TimbradoConfig list \<Rightarrow> TimbradoConfig list" where
  "TimbradoConfig_save now self cfgs =
     (case TimbradoConfig.pk self of
        None \<Rightarrow>
          self\<lparr>TimbradoConfig.pk := Some (nuevo_pk cfgs), TimbradoConfig.fecha_creacion := now\<rparr> # cfgs
      | Some k \<Rightarrow>
          if find (\<lambda>r. TimbradoConfig.pk r = Some k) cfgs \<noteq> None
          then map (\<lambda>r. if TimbradoConfig.pk r = Some k then self else r) cfgs
          else self\<lparr>TimbradoConfig.fecha_creacion := now\<rparr> # cfgs)"

text \<open>Validation followed by saving: \<open>full_clean()\<close>, then \<open>save()\<close> when nothing was raised.\<close>

definition guardar_validado ::
  "datetime \<Rightarrow> TimbradoConfig \<Rightarrow> TimbradoConfig list \<Rightarrow> excepcion + TimbradoConfig list" where
  "guardar_validado now self cfgs =
     (case TimbradoConfig_clean cfgs self of
        Inl e \<Rightarrow> Inl e
      | Inr _ \<Rightarrow> Inr (TimbradoConfig_save now self cfgs))"

text \<open>
  The fields of a submission to \<open>TimbradoConfigForm\<close>, after the field classes have
  stripped and parsed them: a date that is missing or does not parse is \<open>None\<close>.
\<close>

record TimbradoConfigPOST =
  post_establecimiento :: string
  post_punto_expedicion :: string
  post_numero_timbrado :: "string option"
  post_fecha_inicio :: "date option"
  post_fecha_vencimiento :: "date option"
  post_confirmar_reemplazo :: bool

definition is_digit :: "char \<Rightarrow> bool" where
  "is_digit c = (CHR ''0'' \<le> c \<and> c \<le> CHR ''9'')"

text \<open>
  \<open>re.match(r'^\d{3}$', v)\<close> on a value of the three-character field (the field has
  already stripped surrounding white space).
\<close>

definition tres_digitos :: "string \<Rightarrow> bool" where
  "tres_digitos v = (length v = 3 \<and> list_all is_digit v)"

text \<open>
  \<open>form.is_valid()\<close> of \<open>TimbradoConfigForm\<close>, a model form, in the three steps in which the
  framework validates it.
  \<^item> The fields: the two code cleaners, the optional number of at most 50 characters, the
    two required dates.
  \<^item> The form's \<open>clean\<close>: when both dates are there and the end is not after the start, the
    error is attached to \<open>fecha_vencimiento\<close>, which removes that date from the cleaned
    data; the confirmation is demanded only when the form was built with
    \<open>requiere_confirmacion\<close>.
  \<^item> The model: the cleaned data that is left is copied to a fresh instance, which has no
    key and whose \<open>activo\<close> is at its declared default \<open>True\<close>, and \<open>TimbradoConfig.clean\<close> runs
    on that instance whatever the first two steps found.  Its validation error makes the
    form invalid; its \<open>TypeError\<close> is not caught by the form and leaves \<open>is_valid()\<close> as an
    exception.
\<close>

datatype veredicto = Valido | Invalido | Lanza_TypeError

definition TimbradoConfigForm_is_valid ::
  "TimbradoConfig list \<Rightarrow> bool \<Rightarrow> TimbradoConfigPOST \<Rightarrow> veredicto" where
  "TimbradoConfigForm_is_valid cfgs requiere_confirmacion post =
     (let campos =
            (tres_digitos (post_establecimiento post)
             \<and> tres_digitos (post_punto_expedicion post)
             \<and> (case post_numero_timbrado post of None \<Rightarrow> True | Some n \<Rightarrow> length n \<le> 50)
             \<and> post_fecha_inicio post \<noteq> None
             \<and> post_fecha_vencimiento post \<noteq> None);
          orden =
            (case (post_fecha_inicio post, post_fecha_vencimiento post) of
               (Some inicio, Some venc) \<Rightarrow> \<not> venc \<le> inicio
             | _ \<Rightarrow> True);
          inicio_limpio = post_fecha_inicio post;
          venc_limpio = (if orden then post_fecha_vencimiento post else None);
          confirmado = (if requiere_confirmacion then post_confirmar_reemplazo post else True)
      in case TimbradoConfig_clean_atributos cfgs True None inicio_limpio venc_limpio of
           Inl TypeError \<Rightarrow> Lanza_TypeError
         | Inl _ \<Rightarrow> Invalido
         | Inr _ \<Rightarrow> if campos \<and> orden \<and> confirmado then Valido else Invalido)"

text \<open>
  \<open>form.save(commit=False)\<close> of a valid form: the unsaved instance carrying the form's
  fields, every other field at its declared default.
\<close>

definition TimbradoConfigForm_save :: "TimbradoConfigPOST \<Rightarrow> TimbradoConfig" where
  "TimbradoConfigForm_save post =
     \<lparr>TimbradoConfig.pk = None,
      establecimiento = post_establecimiento post,
      punto_expedicion = post_punto_expedicion post,
      numero_timbrado = post_numero_timbrado post,
      fecha_inicio = (case post_fecha_inicio post of Some d \<Rightarrow> d | None \<Rightarrow> 0),
      fecha_vencimiento = (case post_fecha_vencimiento post of Some d \<Rightarrow> d | None \<Rightarrow> 0),
      TimbradoConfig.activo = True,
      creado_por = None,
      TimbradoConfig.fecha_creacion = (0, 0)\<rparr>"

definition es_staff_o_superuser :: "User \<Rightarrow> bool" where
  "es_staff_o_superuser user = (is_staff user \<or> is_superuser user)"

text \<open>
  The view \<open>timbrado_configurar\<close>.  A user who fails the permission test is sent to the
  dashboard.  An exception that leaves \<open>form.is_valid()\<close> reaches the outermost handler of
  the view, which reports an internal error and redirects to the dashboard.  The two writes
  of a valid submission happen inside one atomic block, so the step from the old table to
  the new one is a single transition.
\<close>

definition timbrado_configurar ::
  "datetime \<Rightarrow> User \<Rightarrow> metodo \<Rightarrow> TimbradoConfigPOST \<Rightarrow> TimbradoConfig list
     \<Rightarrow> TimbradoConfig list \<times> (nivel \<times> mensaje) list \<times> respuesta" where
  "timbrado_configurar now user method post cfgs =
     (if \<not> es_staff_o_superuser user then (cfgs, [], Redirect ''facturacion:dashboard'' None)
      else
        (let config_activa = get_activo cfgs;
             hoy = date_of now;
             config_expirada =
               (case config_activa of None \<Rightarrow> False | Some c \<Rightarrow> fecha_vencimiento c < hoy);
             requiere_confirmacion = (config_activa \<noteq> None \<and> \<not> config_expirada)
         in
           if method = POST then
             (case TimbradoConfigForm_is_valid cfgs requiere_confirmacion post of
                Lanza_TypeError \<Rightarrow>
                  (cfgs, [(ERROR, Error_interno_servidor)], Redirect ''facturacion:dashboard'' None)
              | Invalido \<Rightarrow>
                  (cfgs, [(ERROR, Corrija_errores)], Render ''facturacion/timbrado_config_form.html'')
              | Valido \<Rightarrow>
                  (let cfgs1 =
                         (case config_activa of
                            None \<Rightarrow> cfgs
                          | Some c \<Rightarrow> TimbradoConfig_save now (c\<lparr>TimbradoConfig.activo := False\<rparr>) cfgs);
                       nueva_config = TimbradoConfigForm_save post;
                       nueva_config = nueva_config\<lparr>TimbradoConfig.activo := True,
                                                    creado_por := Some (uid user)\<rparr>
                   in (TimbradoConfig_save now nueva_config cfgs1, [(SUCCESS, Timbrado_guardado)],
                       Redirect ''facturacion:timbrado_configurar'' None)))
           else (cfgs, [], Render ''facturacion/timbrado_config_form.html'')))"

text \<open>
  The well-formedness of the table: primary keys are present and pairwise different, and at
  most one row is active.
\<close>

definition tabla_bien_formada :: "TimbradoConfig list \<Rightarrow> bool" where
  "tabla_bien_formada cfgs =
     (distinct (map TimbradoConfig.pk cfgs)
      \<and> list_all (\<lambda>r. TimbradoConfig.pk r \<noteq> None) cfgs
      \<and> length (filter TimbradoConfig.activo cfgs) \<le> 1)"

text \<open>
  The tables that can arise from the empty table through validated saves and through the
  configuration view.
\<close>

inductive alcanzable :: "TimbradoConfig list \<Rightarrow> bool" where
  vacio: "alcanzable []"
| validado: "alcanzable cfgs \<Longrightarrow> guardar_validado now self cfgs = Inr cfgs' \<Longrightarrow> alcanzable cfgs'"
| configurar:
    "alcanzable cfgs \<Longrightarrow> fst (timbrado_configurar now user method post cfgs) = cfgs'
       \<Longrightarrow> alcanzable cfgs'"

subsection \<open>Decimal columns\<close>

text \<open>
  A value written to a column declared \<open>DecimalField(max_digits, decimal_places)\<close> goes
  through \<open>format_number\<close> of the database layer: it is quantized to \<open>decimal_places\<close>
  decimals, a tie going to the even neighbour (the rounding of the default decimal
  context), and a result of more than \<open>max_digits\<close> digits raises \<open>InvalidOperation\<close>, which
  is \<open>None\<close> here.  What is read back from the column is the quantized value.
\<close>

definition round_half_even :: "rat \<Rightarrow> int" where
  "round_half_even x =
     (let f = \<lfloor>x\<rfloor>; r = x - of_int f
      in if r < 1 / 2 then f else if 1 / 2 < r then f + 1 else if even f then f else f + 1)"

definition format_number :: "nat \<Rightarrow> nat \<Rightarrow> Decimal \<Rightarrow> Decimal option" where
  "format_number max_digits decimal_places v =
     (let q = round_half_even (v * 10 ^ decimal_places)
      in if 10 ^ max_digits \<le> \<bar>q\<bar> then None else Some (of_int q / 10 ^ decimal_places))"


text \<open>An amount of at most two decimals, as a column of two decimals holds it.\<close>

definition dos_decimales :: "Decimal \<Rightarrow> bool" where
  "dos_decimales v = (of_int \<lfloor>v * 100\<rfloor> = v * 100)"

subsection \<open>Line items and invoice totals\<close>

text \<open>
  \<open>settings.IVA_PERCENTAGE\<close>.  The method builds its factor as
  \<open>Decimal(str(settings.IVA_PERCENTAGE / 100))\<close>; for the configured value the quotient prints as
  0.1 and reads back as the decimal one tenth, which is \<open>of_int IVA_PERCENTAGE / 100\<close>.
\<close>

definition IVA_PERCENTAGE :: int where
  "IVA_PERCENTAGE = 10"

text \<open>\<open>self.detalles.all()\<close>: the line items whose invoice is the given one.\<close>

definition detalles_de :: "nat \<Rightarrow> DetalleFactura list \<Rightarrow> DetalleFactura list" where
  "detalles_de k ds = filter (\<lambda>d. factura_id d = Some k) ds"

text \<open>
  \<open>self.save(update_fields=['subtotal', 'iva', 'total'])\<close>.  The three amounts are written to
  columns declared \<open>DecimalField(12, 2)\<close>; the stored row of that primary key takes them and
  keeps every other column, the update timestamp included.  An amount that does not fit
  raises before anything is written, and so does an update that finds no row; both are
  \<open>None\<close> here.
\<close>

definition Factura_save_totales :: "Factura \<Rightarrow> Factura list \<Rightarrow> Factura list option" where
  "Factura_save_totales self fs =
     (case (format_number 12 2 (Factura.subtotal self), format_number 12 2 (iva self),
            format_number 12 2 (total self)) of
        (Some s, Some i, Some t) \<Rightarrow>
          if get_factura (Factura.pk self) fs = None then None
          else Some (map (\<lambda>r. if Factura.pk r = Factura.pk self
                              then r\<lparr>Factura.subtotal := s, iva := i, total := t\<rparr>
                              else r) fs)
      | _ \<Rightarrow> None)"

text \<open>
  \<open>Factura.calcular_totales\<close>.  The instance keeps the amounts as computed; the table gets
  them as its columns take them.  Every fault is re-raised as one validation error.
\<close>

datatype error_factura = Error_al_calcular_totales

definition calcular_totales ::
  "Factura \<Rightarrow> DetalleFactura list \<Rightarrow> Factura list \<Rightarrow> error_factura + Factura \<times> Factura list" where
  "calcular_totales self ds fs =
     (let detalles = detalles_de (Factura.pk self) ds;
          self = self\<lparr>Factura.subtotal := sum_list (map DetalleFactura.subtotal detalles)\<rparr>;
          self = self\<lparr>iva := Factura.subtotal self * (of_int IVA_PERCENTAGE / 100)\<rparr>;
          self = self\<lparr>total := Factura.subtotal self + iva self\<rparr>
      in case Factura_save_totales self fs of
           None \<Rightarrow> Inl Error_al_calcular_totales
         | Some fs' \<Rightarrow> Inr (self, fs'))"

text \<open>
  The inherited \<open>save()\<close> of a line item.  The unit price is written to a column declared
  \<open>DecimalField(10, 2)\<close>, the subtotal to one declared \<open>DecimalField(12, 2)\<close> and the quantity
  to a 64-bit integer column.  The invoice column is mandatory and a foreign key that the
  database enforces, so a line without invoice, or whose invoice is not in the table, is
  refused.  A refused write raises and stores nothing (\<open>None\<close>).  Otherwise a line without
  key is inserted under a fresh key, and a line with a key rewrites the row of that key, or
  is inserted under it when there is none.  The result is the instance, which keeps its
  amounts as computed, and the new table.
\<close>

definition nuevo_pk_detalle :: "DetalleFactura list \<Rightarrow> nat" where
  "nuevo_pk_detalle ds =
     Suc (foldr max (map (\<lambda>r. case DetalleFactura.pk r of None \<Rightarrow> 0 | Some k \<Rightarrow> k) ds) 0)"

definition DetalleFactura_super_save ::
  "DetalleFactura \<Rightarrow> DetalleFactura list \<Rightarrow> Factura list
     \<Rightarrow> (DetalleFactura \<times> DetalleFactura list) option" where
  "DetalleFactura_super_save self ds fs =
     (case (format_number 10 2 (precio_unitario self),
            format_number 12 2 (DetalleFactura.subtotal self)) of
        (Some precio, Some sub) \<Rightarrow>
          if cantidad self < - (2 ^ 63) \<or> 2 ^ 63 \<le> cantidad self then None
          else if (case factura_id self of None \<Rightarrow> True | Some k \<Rightarrow> get_factura k fs = None)
            then None
          else
            (let fila = self\<lparr>precio_unitario := precio, DetalleFactura.subtotal := sub\<rparr> in
             case DetalleFactura.pk self of
               None \<Rightarrow>
                 (let k = nuevo_pk_detalle ds
                  in Some (self\<lparr>DetalleFactura.pk := Some k\<rparr>,
                           ds @ [fila\<lparr>DetalleFactura.pk := Some k\<rparr>]))
             | Some k \<Rightarrow>
                 if find (\<lambda>r. DetalleFactura.pk r = Some k) ds \<noteq> None
                 then Some (self, map (\<lambda>r. if DetalleFactura.pk r = Some k then fila else r) ds)
                 else Some (self, ds @ [fila]))
      | _ \<Rightarrow> None)"

text \<open>
  \<open>DetalleFactura.save\<close>: the error it raises, if any, and the two tables afterwards.  Every
  fault is re-raised as one validation error.  When the line itself is refused nothing has
  changed.  When the line is stored and the recomputation of the invoice then fails, the
  method has no transaction of its own: the line stays stored and the invoice keeps its
  former amounts.  \<open>if self.factura_id\<close> is Python truthiness, false for 0.
\<close>

datatype error_detalle = Error_al_guardar_detalle

definition DetalleFactura_save ::
  "DetalleFactura \<Rightarrow> DetalleFactura list \<times> Factura list
     \<Rightarrow> error_detalle option \<times> (DetalleFactura list \<times> Factura list)" where
  "DetalleFactura_save self st =
     (let ds = fst st; fs = snd st;
          self = self\<lparr>DetalleFactura.subtotal := of_int (cantidad self) * precio_unitario self\<rparr>
      in case DetalleFactura_super_save self ds fs of
           None \<Rightarrow> (Some Error_al_guardar_detalle, st)
         | Some (self, ds') \<Rightarrow>
             (case factura_id self of
                None \<Rightarrow> (None, (ds', fs))
              | Some k \<Rightarrow>
                  if k \<noteq> 0 then
                    (case get_factura k fs of
                       None \<Rightarrow> (Some Error_al_guardar_detalle, (ds', fs))
                     | Some factura \<Rightarrow>
                         (case calcular_totales factura ds' fs of
                            Inl _ \<Rightarrow> (Some Error_al_guardar_detalle, (ds', fs))
                          | Inr (_, fs') \<Rightarrow> (None, (ds', fs'))))
                  else (None, (ds', fs))))"


subsection \<open>Invoice numbering\<close>

text \<open>
  \<open>str.split(sep)\<close> for a one-character separator: the pieces between the separators, in
  order.  The result is never empty, so indexing it with \<open>[-1]\<close> cannot raise.
\<close>

fun split_sep :: "char \<Rightarrow> string \<Rightarrow> string list" where
  "split_sep sep [] = [[]]"
| "split_sep sep (c # cs) =
     (if c = sep then [] # split_sep sep cs
      else (case split_sep sep cs of [] \<Rightarrow> [[c]] | w # ws \<Rightarrow> (c # w) # ws))"

text \<open>
  \<open>int(s)\<close> on a character string, base ten: white space is skipped at both ends, one sign
  may lead, and then come decimal digits, between which single underscores may stand.
  Anything else raises \<open>ValueError\<close>, which is \<open>None\<close> here, and so does a literal of more
  than 4300 digits (the interpreter's default limit on the conversion).  The white space
  that \<open>int\<close> skips is that of code points 9 to 13 and 32 and, above the ASCII range, 133
  and 160; the separators of code points 28 to 31 are not skipped.
\<close>

definition is_space :: "char \<Rightarrow> bool" where
  "is_space c = (of_char c \<in> {9, 10, 11, 12, 13, 32, 133, 160 :: nat})"

definition strip :: "string \<Rightarrow> string" where
  "strip s = rev (dropWhile is_space (rev (dropWhile is_space s)))"

definition digit_val :: "char \<Rightarrow> int" where
  "digit_val c = of_char c - 48"

fun int_digits :: "int \<Rightarrow> string \<Rightarrow> int option" where
  "int_digits acc [] = Some acc"
| "int_digits acc [c] = (if is_digit c then Some (acc * 10 + digit_val c) else None)"
| "int_digits acc (c # d # ds) =
     (if is_digit c then int_digits (acc * 10 + digit_val c) (d # ds)
      else if c = CHR ''_'' \<and> is_digit d then int_digits (acc * 10 + digit_val d) ds
      else None)"

definition py_int :: "string \<Rightarrow> int option" where
  "py_int s =
     (let t = strip s;
          neg = (case t of [] \<Rightarrow> False | c # _ \<Rightarrow> c = CHR ''-'');
          u = (case t of [] \<Rightarrow> [] | c # cs \<Rightarrow> if c = CHR ''-'' \<or> c = CHR ''+'' then cs else t)
      in case u of
           [] \<Rightarrow> None
         | d # ds \<Rightarrow>
             if is_digit d then
               (case int_digits (digit_val d) ds of
                  None \<Rightarrow> None
                | Some n \<Rightarrow>
                    if 4300 < int (length (filter is_digit u)) then None
                    else Some (if neg then - n else n))
             else None)"

text \<open>
  The decimal digits of a non-negative integer; \<open>str(n)\<close>; and the format specification
  \<open>0wd\<close>: the sign, if any, then zeros up to a total width of \<open>w\<close>, then the digits.  A number
  with more than \<open>w\<close> characters is written in full.  Formatting an integer of more than 4300
  digits raises \<open>ValueError\<close> (the same limit), which is \<open>None\<close> here.
\<close>

function dec :: "int \<Rightarrow> string" where
  "dec n = (if n < 10 then [char_of (48 + n)] else dec (n div 10) @ [char_of (48 + n mod 10)])"
  by pat_completeness auto
termination
  by (relation "measure nat") auto

declare dec.simps [simp del]

definition str_int :: "int \<Rightarrow> string" where
  "str_int n = (if n < 0 then ''-'' else []) @ dec \<bar>n\<bar>"

definition format_0d :: "nat \<Rightarrow> int \<Rightarrow> string option" where
  "format_0d w n =
     (let ds = dec \<bar>n\<bar>;
          sign = (if n < 0 then ''-'' else [])
      in if 4300 < int (length ds) then None
         else Some (sign @ replicate (w - length sign - length ds) (CHR ''0'') @ ds))"

text \<open>
  \<open>numero_factura__startswith=p\<close>.  On the configured backend, SQLite, the lookup is the
  pattern match \<open>LIKE 'p%'\<close> with the wildcards of \<open>p\<close> escaped, and \<open>LIKE\<close> does not
  distinguish the case of the 26 ASCII letters.
\<close>

definition ascii_lower :: "char \<Rightarrow> char" where
  "ascii_lower c = (if CHR ''A'' \<le> c \<and> c \<le> CHR ''Z'' then char_of (of_char c + (32 :: nat)) else c)"

definition startswith :: "string \<Rightarrow> string \<Rightarrow> bool" where
  "startswith s p = (map ascii_lower (take (length p) s) = map ascii_lower p)"

text \<open>
  The aggregate \<open>Max\<close> over a column of strings, which the backend compares code point by
  code point, a proper prefix being smaller; \<open>None\<close> on no rows.
\<close>

definition Max_agg :: "string list \<Rightarrow> string option" where
  "Max_agg xs = (case xs of [] \<Rightarrow> None | x # rest \<Rightarrow> Some (fold max rest x))"

text \<open>
  The step shared by both branches of \<open>generar_numero_factura\<close>: with no maximum, or an empty
  one, the number starts at \<open>inicio\<close>; otherwise it is the integer after the last hyphen of
  the maximum, plus one, and \<open>inicio\<close> again when that text is not an integer.
\<close>

definition siguiente :: "int \<Rightarrow> string option \<Rightarrow> int" where
  "siguiente inicio ultima =
     (case ultima of
        None \<Rightarrow> inicio
      | Some u \<Rightarrow>
          if u = [] then inicio
          else (case py_int (last (split_sep (CHR ''-'') u)) of
                  None \<Rightarrow> inicio
                | Some ultimo \<Rightarrow> ultimo + 1))"

text \<open>
  \<open>Factura.generar_numero_factura\<close>.  Its first argument is the setting
  \<open>NUMERO_FACTURA_INICIO\<close> (1000 in settings.py), its second the clock reading
  \<open>int(time.time())\<close>, which only the outermost handler of the method uses: the one fault
  that reaches it from the code of the method is the \<open>ValueError\<close> of formatting a number of
  more than 4300 digits.
\<close>

definition generar_numero_factura ::
  "int \<Rightarrow> int \<Rightarrow> TimbradoConfig list \<Rightarrow> Factura list \<Rightarrow> string" where
  "generar_numero_factura NUMERO_FACTURA_INICIO time_time cfgs fs =
     (case get_activo cfgs of
        None \<Rightarrow>
          (let ultima_factura = Max_agg (map numero_factura fs);
               nuevo_numero = siguiente NUMERO_FACTURA_INICIO ultima_factura
           in case format_0d 6 nuevo_numero of
                Some texto \<Rightarrow> ''FAC-'' @ texto
              | None \<Rightarrow> ''FAC-'' @ str_int time_time)
      | Some config \<Rightarrow>
          (let prefix = establecimiento config @ ''-'' @ punto_expedicion config @ ''-'';
               ultima_con_prefix =
                 Max_agg (filter (\<lambda>n. startswith n prefix) (map numero_factura fs));
               nuevo_contador = siguiente 1 ultima_con_prefix
           in case format_0d 8 nuevo_contador of
                Some texto \<Rightarrow> prefix @ texto
              | None \<Rightarrow> ''FAC-'' @ str_int time_time))"

subsection \<open>Creating an invoice\<close>

text \<open>
  A submission to \<open>FacturaForm\<close>, after the field classes have parsed it: the selected
  customer key, the issue date (\<open>None\<close> when missing or unparsable), the submitted status
  text and the optional remarks.
\<close>

record FacturaPOST =
  post_cliente :: "nat option"
  post_fecha_emision :: "date option"
  post_estado :: string
  post_observaciones :: "string option"

text \<open>The status choices that \<open>FacturaForm.__init__\<close> installs.\<close>

definition estado_choices :: "bool \<Rightarrow> User option \<Rightarrow> string list" where
  "estado_choices es_creacion user =
     (if es_creacion then [''PENDIENTE'', ''PAGADA'']
      else if (case user of None \<Rightarrow> False | Some u \<Rightarrow> is_staff u \<or> is_superuser u)
        then [''PENDIENTE'', ''PAGADA'', ''ANULADA'']
      else [''PENDIENTE'', ''PAGADA''])"

text \<open>\<open>FacturaForm.clean_estado\<close>, on the value the status field has accepted.\<close>

definition clean_estado :: "bool \<Rightarrow> User option \<Rightarrow> string option \<Rightarrow> unit + string option" where
  "clean_estado es_creacion user valor =
     (if es_creacion \<and> valor = Some ''ANULADA'' then Inr (Some ''PENDIENTE'')
      else if \<not> es_creacion \<and> valor = Some ''ANULADA''
              \<and> (case user of None \<Rightarrow> True | Some u \<Rightarrow> \<not> (is_staff u \<or> is_superuser u))
        then Inl ()
      else Inr valor)"

text \<open>
  The status field as a whole.  It is a required choice field: an empty value, or one
  that is not among the installed choices, fails the field, and the form's own cleaner
  runs only on a value the field has accepted.
\<close>

definition FacturaForm_estado :: "bool \<Rightarrow> User option \<Rightarrow> string \<Rightarrow> unit + string option" where
  "FacturaForm_estado es_creacion user raw =
     (if raw = [] \<or> raw \<notin> set (estado_choices es_creacion user) then Inl ()
      else clean_estado es_creacion user (Some raw))"

text \<open>
  Validity of the form: the customer must be one of the active customers (the queryset
  installed by \<open>__init__\<close>), the date must be present, and the status must pass.
\<close>

definition FacturaForm_is_valid :: "bool \<Rightarrow> User option \<Rightarrow> Cliente list \<Rightarrow> FacturaPOST \<Rightarrow> bool" where
  "FacturaForm_is_valid es_creacion user clientes post =
     ((case post_cliente post of
         None \<Rightarrow> False
       | Some k \<Rightarrow> find (\<lambda>c. Cliente.pk c = k \<and> Cliente.activo c) clientes \<noteq> None)
      \<and> post_fecha_emision post \<noteq> None
      \<and> (case FacturaForm_estado es_creacion user (post_estado post) of
            Inl _ \<Rightarrow> False | Inr _ \<Rightarrow> True))"

text \<open>
  \<open>form.save(commit=False)\<close>: an unsaved invoice with the cleaned fields, every other field
  at its declared default.  The key and the two timestamps are assigned on insertion.
\<close>

definition FacturaForm_save :: "bool \<Rightarrow> User option \<Rightarrow> FacturaPOST \<Rightarrow> Factura" where
  "FacturaForm_save es_creacion user post =
     \<lparr>Factura.pk = 0,
      numero_factura = [],
      cliente_id = (case post_cliente post of Some k \<Rightarrow> k | None \<Rightarrow> 0),
      fecha_emision = (case post_fecha_emision post of Some d \<Rightarrow> d | None \<Rightarrow> 0),
      Factura.subtotal = 0, iva = 0, total = 0,
      estado = (case FacturaForm_estado es_creacion user (post_estado post) of
                  Inr (Some e) \<Rightarrow> e | _ \<Rightarrow> ''PENDIENTE''),
      observaciones = post_observaciones post,
      timbrado = None, timbrado_fecha = None, timbrado_vencimiento = None,
      timbrado_por = None, timbrado_fecha_registro = None,
      Factura.activo = True,
      Factura.fecha_creacion = (0, 0), Factura.fecha_actualizacion = (0, 0)\<rparr>"

text \<open>
  Insertion of an invoice.  The invoice number is declared unique, so an already used
  number is refused by the database.
\<close>

definition nuevo_pk_factura :: "Factura list \<Rightarrow> nat" where
  "nuevo_pk_factura fs = Suc (foldr max (map Factura.pk fs) 0)"

datatype error_crear = IntegrityError | Error_detalle | Error_totales

definition Factura_insert :: "datetime \<Rightarrow> Factura \<Rightarrow> Factura list \<Rightarrow> error_crear + Factura \<times> Factura list" where
  "Factura_insert now self fs =
     (if numero_factura self \<in> set (map numero_factura fs) then Inl IntegrityError
      else
        (let self' = self\<lparr>Factura.pk := nuevo_pk_factura fs,
                          Factura.fecha_creacion := now, Factura.fecha_actualizacion := now\<rparr>
         in Inr (self', self' # fs)))"

text \<open>
  \<open>formset.save()\<close> with the new invoice as instance: every row is saved as a line item of
  that invoice, and the first fault aborts.
\<close>

fun formset_save ::
  "nat \<Rightarrow> DetalleFactura list \<Rightarrow> DetalleFactura list \<times> Factura list
     \<Rightarrow> error_crear + DetalleFactura list \<times> Factura list" where
  "formset_save k [] st = Inr st"
| "formset_save k (l # ls) st =
     (case DetalleFactura_save (l\<lparr>factura_id := Some k\<rparr>) st of
        (Some _, _) \<Rightarrow> Inl Error_detalle
      | (None, st') \<Rightarrow> formset_save k ls st')"

text \<open>The guard of the view just before the invoice is saved.\<close>

definition no_anulada_en_creacion :: "Factura \<Rightarrow> Factura" where
  "no_anulada_en_creacion factura =
     (if estado factura = ''ANULADA'' then factura\<lparr>estado := ''PENDIENTE''\<rparr> else factura)"

text \<open>
  The body of the atomic block of \<open>factura_crear\<close>; a fault rolls everything back, so only
  a run without fault yields new tables.
\<close>

definition crear_factura_atomic ::
  "datetime \<Rightarrow> User \<Rightarrow> FacturaPOST \<Rightarrow> DetalleFactura list \<Rightarrow> int \<Rightarrow> int \<Rightarrow> TimbradoConfig list
     \<Rightarrow> Factura list \<times> DetalleFactura list
     \<Rightarrow> error_crear + Factura \<times> (Factura list \<times> DetalleFactura list)" where
  "crear_factura_atomic now user post lineas inicio time_time cfgs st =
     (let fs = fst st; ds = snd st;
          factura = FacturaForm_save True (Some user) post;
          factura = factura\<lparr>numero_factura := generar_numero_factura inicio time_time cfgs fs\<rparr>;
          factura = no_anulada_en_creacion factura
      in case Factura_insert now factura fs of
           Inl e \<Rightarrow> Inl e
         | Inr (factura, fs1) \<Rightarrow>
             (case formset_save (Factura.pk factura) lineas (ds, fs1) of
                Inl e \<Rightarrow> Inl e
              | Inr (ds2, fs2) \<Rightarrow>
                  (case calcular_totales factura ds2 fs2 of
                     Inl _ \<Rightarrow> Inl Error_totales
                   | Inr (factura, fs3) \<Rightarrow> Inr (factura, (fs3, ds2)))))"

text \<open>
  The view \<open>factura_crear\<close>.  The set of line forms comes in as its verdict and its rows;
  \<open>inicio\<close> and \<open>time_time\<close> are the two arguments of the number generator.
\<close>

definition factura_crear ::
  "datetime \<Rightarrow> User \<Rightarrow> metodo \<Rightarrow> FacturaPOST \<Rightarrow> bool \<Rightarrow> DetalleFactura list \<Rightarrow> int \<Rightarrow> int
     \<Rightarrow> TimbradoConfig list \<Rightarrow> Cliente list \<Rightarrow> Factura list \<times> DetalleFactura list
     \<Rightarrow> (Factura list \<times> DetalleFactura list) \<times> (nivel \<times> mensaje) list \<times> respuesta" where
  "factura_crear now user method post formset_is_valid lineas inicio time_time cfgs clientes st =
     (let hoy = date_of now in
      case get_activo cfgs of
        None \<Rightarrow> (st, [(ERROR, Sin_timbrado)], Redirect ''facturacion:factura_lista'' None)
      | Some config_timbrado \<Rightarrow>
          if hoy < fecha_inicio config_timbrado then
            (st, [(ERROR, Timbrado_no_vigente (fecha_inicio config_timbrado))],
             Redirect ''facturacion:factura_lista'' None)
          else if hoy > fecha_vencimiento config_timbrado then
            (st, [(ERROR, Timbrado_vencido (fecha_vencimiento config_timbrado))],
             Redirect ''facturacion:factura_lista'' None)
          else if method = POST then
            if FacturaForm_is_valid True (Some user) clientes post \<and> formset_is_valid then
              (case crear_factura_atomic now user post lineas inicio time_time cfgs st of
                 Inl _ \<Rightarrow>
                   (st, [(ERROR, Error_interno_crear)], Render ''facturacion/factura_form.html'')
               | Inr (factura, st') \<Rightarrow>
                   (st', [(SUCCESS, Factura_creada (numero_factura factura))],
                    Redirect ''facturacion:factura_detalle'' (Some (Factura.pk factura))))
            else
              (st, [(ERROR, Corrija_errores_formulario)], Render ''facturacion/factura_form.html'')
          else (st, [], Render ''facturacion/factura_form.html''))"

subsection \<open>The sales report document (facturacion/utils.py)\<close>

text \<open>
  The flowables that \<open>generar_reporte_ventas\<close> appends to its document: paragraphs with
  their style, spacers, and tables as rows of cell texts (table styling is layout only).
\<close>

datatype estilo = CustomTitle | Normal | Heading2 | Italic

datatype elemento = Paragraph string estilo | Spacer | Table "string list list"

text \<open>
  \<open>get_estado_display\<close>: the label of the status among the declared choices, and the
  status itself when it is not one of them.
\<close>

definition ESTADO_CHOICES :: "(string \<times> string) list" where
  "ESTADO_CHOICES =
     [(''PENDIENTE'', ''Pendiente''), (''PAGADA'', ''Pagada''), (''ANULADA'', ''Anulada'')]"

definition get_estado_display :: "Factura \<Rightarrow> string" where
  "get_estado_display self =
     (case map_of ESTADO_CHOICES (estado self) of None \<Rightarrow> estado self | Some etiqueta \<Rightarrow> etiqueta)"

text \<open>
  The report takes the matching invoices, each joined with its customer, in query order.
  Two library formatters are arguments: \<open>strftime\<close> stands for \<open>strftime('%d/%m/%Y')\<close> and
  \<open>moneda\<close> for the currency format (the guarani sign, then the amount grouped by thousands
  without decimals).  First comes everything up to the heading of the detail section.
\<close>

definition elementos_resumen ::
  "(date \<Rightarrow> string) \<Rightarrow> (Decimal \<Rightarrow> string) \<Rightarrow> (Factura \<times> Cliente) list
     \<Rightarrow> date option \<Rightarrow> date option \<Rightarrow> elemento list" where
  "elementos_resumen strftime moneda facturas fecha_desde fecha_hasta =
     (let periodo =
            (case (fecha_desde, fecha_hasta) of
               (Some d, Some h) \<Rightarrow> ''Per'' @ [CHR 0xED] @ ''odo: '' @ strftime d @ '' - '' @ strftime h
             | _ \<Rightarrow> ''Todas las ventas'');
          total_facturas = length facturas;
          total_monto = sum_list (map (\<lambda>fc. total (fst fc)) facturas);
          pagadas = filter (\<lambda>fc. estado (fst fc) = ''PAGADA'') facturas;
          facturas_pagadas = length pagadas;
          monto_pagado = sum_list (map (\<lambda>fc. total (fst fc)) pagadas);
          pendientes = filter (\<lambda>fc. estado (fst fc) = ''PENDIENTE'') facturas;
          facturas_pendientes = length pendientes;
          monto_pendiente = sum_list (map (\<lambda>fc. total (fst fc)) pendientes);
          resumen_data =
            [[''RESUMEN GENERAL'', ''''],
             [''Total de Facturas:'', dec (int total_facturas)],
             [''Facturas Pagadas:'', dec (int facturas_pagadas)],
             [''Facturas Pendientes:'', dec (int facturas_pendientes)],
             [''Monto Total:'', moneda total_monto],
             [''Monto Pagado:'', moneda monto_pagado],
             [''Monto Pendiente:'', moneda monto_pendiente]]
      in [Paragraph ''REPORTE DE VENTAS'' CustomTitle, Paragraph periodo Normal, Spacer,
          Table resumen_data, Spacer, Paragraph ''DETALLE DE FACTURAS'' Heading2])"

text \<open>One row of the detail table.\<close>

definition fila_detalle ::
  "(date \<Rightarrow> string) \<Rightarrow> (Decimal \<Rightarrow> string) \<Rightarrow> Factura \<times> Cliente \<Rightarrow> string list" where
  "fila_detalle strftime moneda fc =
     (let factura = fst fc; cliente = snd fc
      in [numero_factura factura,
          strftime (fecha_emision factura),
          take 30 (nombre cliente),
          get_estado_display factura,
          moneda (total factura)])"

text \<open>The detail table: its header, then a row for each of \<open>facturas[:50]\<close>.\<close>

definition detalle_data ::
  "(date \<Rightarrow> string) \<Rightarrow> (Decimal \<Rightarrow> string) \<Rightarrow> (Factura \<times> Cliente) list \<Rightarrow> string list list" where
  "detalle_data strftime moneda facturas =
     [''N'' @ [CHR 0xBA] @ '' Factura'', ''Fecha'', ''Cliente'', ''Estado'', ''Total'']
     # map (fila_detalle strftime moneda) (take 50 facturas)"

text \<open>What follows the detail table when more than 50 invoices match.\<close>

definition elementos_nota :: "(Factura \<times> Cliente) list \<Rightarrow> elemento list" where
  "elementos_nota facturas =
     (if length facturas > 50
      then [Spacer,
            Paragraph (''Mostrando las primeras 50 de '' @ dec (int (length facturas)) @ '' facturas'')
              Italic]
      else [])"

definition generar_reporte_ventas ::
  "(date \<Rightarrow> string) \<Rightarrow> (Decimal \<Rightarrow> string) \<Rightarrow> (Factura \<times> Cliente) list
     \<Rightarrow> date option \<Rightarrow> date option \<Rightarrow> elemento list" where
  "generar_reporte_ventas strftime moneda facturas fecha_desde fecha_hasta =
     elementos_resumen strftime moneda facturas fecha_desde fecha_hasta
     @ [Table (detalle_data strftime moneda facturas)]
     @ elementos_nota facturas"

text \<open>The texts of the italic paragraphs of a document, and its tables, in order.\<close>

definition italicas :: "elemento list \<Rightarrow> string list" where
  "italicas els = concat (map (\<lambda>e. case e of Paragraph t Italic \<Rightarrow> [t] | _ \<Rightarrow> []) els)"

definition tablas :: "elemento list \<Rightarrow> string list list list" where
  "tablas els = concat (map (\<lambda>e. case e of Table filas \<Rightarrow> [filas] | _ \<Rightarrow> []) els)"

subsection \<open>Sample data\<close>

definition cfgs_demo :: "TimbradoConfig list" where
  "cfgs_demo =
     [\<lparr>TimbradoConfig.pk = Some 1, establecimiento = ''001'', punto_expedicion = ''002'',
       numero_timbrado = None, fecha_inicio = 100, fecha_vencimiento = 465,
       TimbradoConfig.activo = True, creado_por = Some 7,
       TimbradoConfig.fecha_creacion = (100, 0)\<rparr>]"

definition linea_demo :: DetalleFactura where
  "linea_demo = \<lparr>DetalleFactura.pk = None, factura_id = Some 1, producto = ''Servicio'',
                 cantidad = 3, precio_unitario = 1005 / 100, DetalleFactura.subtotal = 0\<rparr>"


definition post_factura_demo :: FacturaPOST where
  "post_factura_demo = \<lparr>post_cliente = Some 1, post_fecha_emision = Some 120,
                         post_estado = ''PAGADA'', post_observaciones = None\<rparr>"

definition admin_demo :: User where
  "admin_demo = \<lparr>uid = 7, is_staff = True, is_superuser = False\<rparr>"

definition post_demo :: TimbradoConfigPOST where
  "post_demo =
     \<lparr>post_establecimiento = ''001'', post_punto_expedicion = ''002'',
      post_numero_timbrado = None, post_fecha_inicio = Some 100,
      post_fecha_vencimiento = Some 465, post_confirmar_reemplazo = True\<rparr>"

definition cliente_demo :: Cliente where
  "cliente_demo =
     \<lparr>Cliente.pk = 1, nombre = ''Cliente Test'', ruc_ci = ''123456789'',
      direccion = ''Direccion Test'', telefono = ''0981123456'', email = None,
      Cliente.activo = True, Cliente.fecha_creacion = (90, 0),
      Cliente.fecha_actualizacion = (90, 0)\<rparr>"

definition factura_demo :: Factura where
  "factura_demo =
     \<lparr>Factura.pk = 1, numero_factura = ''001-001-00000001'', cliente_id = 1, fecha_emision = 100,
      Factura.subtotal = 0, iva = 0, total = 0, estado = ''PENDIENTE'', observaciones = None,
      timbrado = Some ''12345678'', timbrado_fecha = Some 50, timbrado_vencimiento = Some 400,
      timbrado_por = None, timbrado_fecha_registro = None, Factura.activo = True,
      Factura.fecha_creacion = (100, 0), Factura.fecha_actualizacion = (100, 0)\<rparr>"

section \<open>Verified properties\<close>

subsection \<open>Rows addressed by primary key\<close>


lemma get_factura_mem: "get_factura k fs = Some f \<Longrightarrow> f \<in> set fs"
  unfolding get_factura_def by (induction fs) (auto split: if_splits)



subsection \<open>C10: validity window of an invoice's timbrado\<close>

text \<open>
  C10.  The validity check answers false when the invoice records no timbrado number (none,
  or the empty string).  Otherwise it answers true exactly when the invoice's own issue date
  is not before the recorded start date and not after the recorded end date, each bound
  being checked only when it is present.  The answer is the same for every value of the
  clock: it depends on the stored fields of the invoice alone.
\<close>

theorem timbrado_vigente_window:
  "(\<not> tiene_timbrado self \<longrightarrow> \<not> timbrado_vigente now self)
   \<and> (tiene_timbrado self \<longrightarrow>
        (timbrado_vigente now self \<longleftrightarrow>
           (\<forall>d. timbrado_fecha self = Some d \<longrightarrow> d \<le> fecha_emision self)
         \<and> (\<forall>d. timbrado_vencimiento self = Some d \<longrightarrow> fecha_emision self \<le> d)))
   \<and> timbrado_vigente now self = timbrado_vigente now' self"
  by (auto simp: timbrado_vigente_def Let_def split: option.splits)

theorem timbrado_vigente_window_witness:
  "tiene_timbrado factura_demo
   \<and> timbrado_vigente (9999, 0) factura_demo
   \<and> \<not> timbrado_vigente (9999, 0) (factura_demo\<lparr>fecha_emision := 401\<rparr>)
   \<and> \<not> timbrado_vigente (100, 0) (factura_demo\<lparr>timbrado := None\<rparr>)"
proof -
  have t: "tiene_timbrado factura_demo"
    by (simp add: factura_demo_def tiene_timbrado_def)
  have lo: "\<forall>d. timbrado_fecha factura_demo = Some d \<longrightarrow> d \<le> fecha_emision factura_demo"
    by (simp add: factura_demo_def)
  have hi: "\<forall>d. timbrado_vencimiento factura_demo = Some d \<longrightarrow> fecha_emision factura_demo \<le> d"
    by (simp add: factura_demo_def)
  have ok: "timbrado_vigente (9999, 0) factura_demo"
    using timbrado_vigente_window [of factura_demo "(9999, 0)" "(0, 0)"] t lo hi by blast
  let ?late = "factura_demo\<lparr>fecha_emision := 401\<rparr>"
  have t2: "tiene_timbrado ?late"
    by (simp add: factura_demo_def tiene_timbrado_def)
  have hi2: "\<not> (\<forall>d. timbrado_vencimiento ?late = Some d \<longrightarrow> fecha_emision ?late \<le> d)"
    by (simp add: factura_demo_def)
  have late: "\<not> timbrado_vigente (9999, 0) ?late"
    using timbrado_vigente_window [of ?late "(9999, 0)" "(0, 0)"] t2 hi2 by blast
  let ?none = "factura_demo\<lparr>timbrado := None\<rparr>"
  have t3: "\<not> tiene_timbrado ?none"
    by (simp add: tiene_timbrado_def)
  have none: "\<not> timbrado_vigente (100, 0) ?none"
    using timbrado_vigente_window [of ?none "(100, 0)" "(0, 0)"] t3 by blast
  show ?thesis using t ok late none by blast
qed

subsection \<open>C7: marking an invoice as paid\<close>



subsection \<open>C6: voiding behind the arithmetic challenge\<close>





subsection \<open>C8: deleting a customer never removes the row\<close>

lemma get_cliente_pk: "get_cliente k cs = Some c \<Longrightarrow> Cliente.pk c = k"
  unfolding get_cliente_def by (induction cs) (auto split: if_splits)

lemma get_cliente_rewrite:
  assumes "get_cliente k cs = Some c" and "Cliente.pk c' = k"
  shows "get_cliente k (map (\<lambda>r. if Cliente.pk r = k then c' else r) cs) = Some c'"
  using assms unfolding get_cliente_def by (induction cs) (auto split: if_splits)

lemma map_pk_rewrite:
  assumes "Cliente.pk c' = k"
  shows "map Cliente.pk (map (\<lambda>r. if Cliente.pk r = k then c' else r) cs) = map Cliente.pk cs"
  using assms by (induction cs) auto

text \<open>
  C8, as the claim states it, fails: when no active invoice references the customer, the
  stored row afterwards is not the old row with only the active flag cleared, because the
  save also refreshes the automatically maintained update timestamp.
\<close>

theorem cliente_eliminar_counterexample:
  "get_cliente 1 [cliente_demo] = Some cliente_demo
   \<and> facturas_activas_de cliente_demo [] = 0
   \<and> get_cliente 1 (fst (cliente_eliminar (200, 0) POST 1 [cliente_demo] []))
       \<noteq> Some (cliente_demo\<lparr>Cliente.activo := False\<rparr>)"
  by (simp add: get_cliente_def cliente_demo_def facturas_activas_de_def
        cliente_eliminar_def Cliente_save_def Let_def)

text \<open>
  C8, amended.  For a customer found under the requested key, no request removes a row: the
  table keeps the same primary keys in the same order.  On a POST, when at least one active
  invoice references the customer the table is unchanged and the error carries the number
  of active invoices; when none does, the customer's row has its active flag cleared and
  its update timestamp refreshed, and every other field and every other row is as before.
\<close>

theorem cliente_eliminar_soft:
  assumes "get_cliente k cs = Some c"
  shows
   "map Cliente.pk (fst (cliente_eliminar now method k cs fs)) = map Cliente.pk cs
  \<and> (0 < facturas_activas_de c fs \<longrightarrow>
       (\<exists>r. cliente_eliminar now POST k cs fs
               = (cs, [(ERROR, Cliente_con_facturas (nombre c) (facturas_activas_de c fs))], r)))
  \<and> (facturas_activas_de c fs = 0 \<longrightarrow>
       (\<exists>r. cliente_eliminar now POST k cs fs
               = (map (\<lambda>r. if Cliente.pk r = k
                            then c\<lparr>Cliente.activo := False, Cliente.fecha_actualizacion := now\<rparr>
                            else r) cs,
                  [(SUCCESS, Cliente_eliminado (nombre c))], r))
       \<and> get_cliente k (fst (cliente_eliminar now POST k cs fs))
           = Some (c\<lparr>Cliente.activo := False, Cliente.fecha_actualizacion := now\<rparr>))"
proof -
  have k: "Cliente.pk c = k" using assms by (rule get_cliente_pk)
  let ?c' = "c\<lparr>Cliente.activo := False, Cliente.fecha_actualizacion := now\<rparr>"
  have pk': "Cliente.pk ?c' = k" using k by simp
  note upd = get_cliente_rewrite [OF assms pk']
  note keys = map_pk_rewrite [OF pk', of cs]
  show ?thesis
    using assms k upd keys
    by (auto simp: cliente_eliminar_def Cliente_save_def Let_def)
qed

theorem cliente_eliminar_soft_witness:
  "get_cliente 1 [cliente_demo] = Some cliente_demo
   \<and> facturas_activas_de cliente_demo [] = 0
   \<and> get_cliente 1 (fst (cliente_eliminar (200, 0) POST 1 [cliente_demo] []))
       = Some (cliente_demo\<lparr>Cliente.activo := False, Cliente.fecha_actualizacion := (200, 0)\<rparr>)
   \<and> 0 < facturas_activas_de cliente_demo [factura_demo]
   \<and> fst (cliente_eliminar (200, 0) POST 1 [cliente_demo] [factura_demo]) = [cliente_demo]"
proof -
  have h: "get_cliente 1 [cliente_demo] = Some cliente_demo"
    by (simp add: get_cliente_def cliente_demo_def)
  have z: "facturas_activas_de cliente_demo [] = 0"
    by (simp add: facturas_activas_de_def)
  have p: "0 < facturas_activas_de cliente_demo [factura_demo]"
    by (simp add: facturas_activas_de_def cliente_demo_def factura_demo_def)
  from cliente_eliminar_soft [OF h, where now = "(200, 0)" and fs = "[]"] z
  have 1: "get_cliente 1 (fst (cliente_eliminar (200, 0) POST 1 [cliente_demo] []))
       = Some (cliente_demo\<lparr>Cliente.activo := False, Cliente.fecha_actualizacion := (200, 0)\<rparr>)"
    by blast
  from cliente_eliminar_soft [OF h, where now = "(200, 0)" and fs = "[factura_demo]"] p
  have 2: "fst (cliente_eliminar (200, 0) POST 1 [cliente_demo] [factura_demo]) = [cliente_demo]"
    by force
  from h z p 1 2 show ?thesis by blast
qed

subsection \<open>C1: at most one active timbrado configuration\<close>

lemma foldr_max_ge: "x \<in> set xs \<Longrightarrow> x \<le> foldr max xs (a::nat)"
  by (induction xs) (auto simp: max_def)

lemma nuevo_pk_fresh: "Some (nuevo_pk cfgs) \<notin> set (map TimbradoConfig.pk cfgs)"
proof
  assume "Some (nuevo_pk cfgs) \<in> set (map TimbradoConfig.pk cfgs)"
  then obtain r where r: "r \<in> set cfgs" "TimbradoConfig.pk r = Some (nuevo_pk cfgs)" by auto
  then have "nuevo_pk cfgs \<in> set (map (\<lambda>r. case TimbradoConfig.pk r of None \<Rightarrow> 0 | Some k \<Rightarrow> k) cfgs)"
    by force
  from foldr_max_ge [OF this, of 0] show False by (simp add: nuevo_pk_def)
qed

lemma filter_le1_unique:
  "length (filter P xs) \<le> 1 \<Longrightarrow> x \<in> set xs \<Longrightarrow> P x \<Longrightarrow> y \<in> set xs \<Longrightarrow> P y \<Longrightarrow> x = y"
proof (induction xs)
  case Nil then show ?case by simp
next
  case (Cons a xs)
  show ?case
  proof (cases "P a")
    case True
    with Cons.prems(1) have "filter P xs = []" by simp
    then have "\<forall>z\<in>set xs. \<not> P z" by (simp add: filter_empty_conv)
    with Cons.prems show ?thesis by auto
  next
    case False
    with Cons show ?thesis by auto
  qed
qed


lemma find_None_filter: "find P xs = None \<Longrightarrow> filter P xs = []"
  by (induction xs) (auto split: if_splits)

lemma distinct_pk_eq:
  "distinct (map f xs) \<Longrightarrow> x \<in> set xs \<Longrightarrow> y \<in> set xs \<Longrightarrow> f x = f y \<Longrightarrow> x = y"
  by (meson distinct_map inj_on_def)

lemma map_pk_rewrite_cfg:
  "TimbradoConfig.pk s = k \<Longrightarrow>
   map TimbradoConfig.pk (map (\<lambda>r. if TimbradoConfig.pk r = k then s else r) xs) = map TimbradoConfig.pk xs"
  by (induction xs) auto

lemma rewrite_inactive_le:
  "\<not> P s \<Longrightarrow> length (filter P (map (\<lambda>r. if f r = k then s else r) xs)) \<le> length (filter P xs)"
  by (induction xs) auto

lemma rewrite_absent: "k \<notin> set (map f xs) \<Longrightarrow> map (\<lambda>r. if f r = k then s else r) xs = xs"
  by (induction xs) auto

lemma rewrite_active_le1:
  "distinct (map f xs) \<Longrightarrow> \<forall>r\<in>set xs. P r \<longrightarrow> f r = k \<Longrightarrow>
   length (filter P (map (\<lambda>r. if f r = k then s else r) xs)) \<le> 1"
proof (induction xs)
  case Nil then show ?case by simp
next
  case (Cons a xs)
  show ?case
  proof (cases "f a = k")
    case True
    with Cons.prems have nk: "k \<notin> set (map f xs)" by auto
    have "\<forall>r\<in>set xs. \<not> P r"
    proof (intro ballI notI)
      fix r assume r: "r \<in> set xs" "P r"
      then have "f r = k" using Cons.prems(2) by simp
      moreover have "f r \<in> set (map f xs)" using r by simp
      ultimately show False using nk by simp
    qed
    then have "filter P xs = []" by (simp add: filter_empty_conv)
    with True rewrite_absent [OF nk, of s] show ?thesis by simp
  next
    case False
    with Cons.prems have "\<not> P a" by auto
    with False Cons show ?thesis by simp
  qed
qed

lemma filter_empty_all: "filter P xs = [] \<Longrightarrow> r \<in> set xs \<Longrightarrow> \<not> P r"
  by (simp add: filter_empty_conv)

lemma guardar_validado_bien_formada:
  assumes inv: "tabla_bien_formada cfgs" and ok: "guardar_validado now self cfgs = Inr cfgs'"
  shows "tabla_bien_formada cfgs'"
proof -
  from ok have cl: "TimbradoConfig_clean cfgs self = Inr ()"
    and cfgs': "cfgs' = TimbradoConfig_save now self cfgs"
    by (auto simp: guardar_validado_def split: sum.splits)
  from inv have d: "distinct (map TimbradoConfig.pk cfgs)"
    and nn: "list_all (\<lambda>r. TimbradoConfig.pk r \<noteq> None) cfgs"
    and le: "length (filter TimbradoConfig.activo cfgs) \<le> 1"
    by (simp_all add: tabla_bien_formada_def)
  show ?thesis
  proof (cases "TimbradoConfig.pk self")
    case None
    have "TimbradoConfig.activo self \<Longrightarrow> filter TimbradoConfig.activo cfgs = []"
      using cl None by (simp add: TimbradoConfig_clean_def TimbradoConfig_clean_atributos_def Let_def split: if_splits)
    then show ?thesis
      using None cfgs' d nn le nuevo_pk_fresh [of cfgs]
      by (auto simp: tabla_bien_formada_def TimbradoConfig_save_def)
  next
    case (Some k)
    have act: "TimbradoConfig.activo self \<Longrightarrow>
        \<forall>r\<in>set cfgs. TimbradoConfig.activo r \<longrightarrow> TimbradoConfig.pk r = Some k"
    proof (intro ballI impI)
      fix r assume a: "TimbradoConfig.activo self" and r: "r \<in> set cfgs" "TimbradoConfig.activo r"
      show "TimbradoConfig.pk r = Some k"
      proof (rule ccontr)
        assume n: "TimbradoConfig.pk r \<noteq> Some k"
        show False
        proof (cases "k = 0")
          case True
          with cl Some a have "filter TimbradoConfig.activo cfgs = []"
            by (simp add: TimbradoConfig_clean_def TimbradoConfig_clean_atributos_def Let_def split: if_splits)
          with r show False by (simp add: filter_empty_conv)
        next
          case False
          with cl Some a have
            "filter (\<lambda>r. TimbradoConfig.pk r \<noteq> Some k) (filter TimbradoConfig.activo cfgs) = []"
            by (simp add: TimbradoConfig_clean_def TimbradoConfig_clean_atributos_def Let_def split: if_splits)
          with r n show False by (simp add: filter_empty_conv)
        qed
      qed
    qed
    show ?thesis
    proof (cases "find (\<lambda>r. TimbradoConfig.pk r = Some k) cfgs")
      case None
      then have nk: "Some k \<notin> set (map TimbradoConfig.pk cfgs)"
        by (auto simp: find_None_iff)
      have "TimbradoConfig.activo self \<Longrightarrow> filter TimbradoConfig.activo cfgs = []"
        using act nk by (force simp: filter_empty_conv)
      then show ?thesis
        using None Some cfgs' d nn le nk
        by (auto simp: tabla_bien_formada_def TimbradoConfig_save_def)
    next
      case (Some c)
      let ?g = "\<lambda>r. if TimbradoConfig.pk r = Some k then self else r"
      have c': "cfgs' = map ?g cfgs"
        using Some \<open>TimbradoConfig.pk self = Some k\<close> cfgs' by (simp add: TimbradoConfig_save_def)
      have keys: "map TimbradoConfig.pk (map ?g cfgs) = map TimbradoConfig.pk cfgs"
        using map_pk_rewrite_cfg [OF \<open>TimbradoConfig.pk self = Some k\<close>] .
      have nn': "list_all (\<lambda>r. TimbradoConfig.pk r \<noteq> None) (map ?g cfgs)"
        using nn \<open>TimbradoConfig.pk self = Some k\<close> by (induction cfgs) auto
      have cnt: "length (filter TimbradoConfig.activo (map ?g cfgs)) \<le> 1"
      proof (cases "TimbradoConfig.activo self")
        case True
        from rewrite_active_le1 [OF d act [OF True]] show ?thesis .
      next
        case False
        from rewrite_inactive_le [of TimbradoConfig.activo self TimbradoConfig.pk "Some k" cfgs, OF False] le
        show ?thesis by simp
      qed
      have d': "distinct (map TimbradoConfig.pk (map ?g cfgs))"
        unfolding keys by (rule d)
      show ?thesis unfolding tabla_bien_formada_def c' using d' nn' cnt by blast
    qed
  qed
qed

lemma is_valid_Valido_sin_activa:
  assumes "TimbradoConfigForm_is_valid cfgs requiere_confirmacion post = Valido"
  shows "filter TimbradoConfig.activo cfgs = []"
proof (rule ccontr)
  assume "filter TimbradoConfig.activo cfgs \<noteq> []"
  then have "TimbradoConfigForm_is_valid cfgs requiere_confirmacion post = Invalido"
    by (simp add: TimbradoConfigForm_is_valid_def TimbradoConfig_clean_atributos_def Let_def)
  with assms show False by simp
qed

lemma timbrado_configurar_con_activa:
  assumes "filter TimbradoConfig.activo cfgs \<noteq> []"
  shows "fst (timbrado_configurar now user metodo post cfgs) = cfgs"
proof -
  have "TimbradoConfigForm_is_valid cfgs r post = Invalido" for r
    using assms
    by (simp add: TimbradoConfigForm_is_valid_def TimbradoConfig_clean_atributos_def Let_def)
  then show ?thesis by (simp add: timbrado_configurar_def Let_def)
qed

lemma timbrado_configurar_valido:
  assumes "es_staff_o_superuser user"
    and "TimbradoConfigForm_is_valid cfgs
           (get_activo cfgs \<noteq> None
            \<and> \<not> (case get_activo cfgs of None \<Rightarrow> False | Some c \<Rightarrow> fecha_vencimiento c < date_of now))
           post = Valido"
  shows "fst (timbrado_configurar now user POST post cfgs)
         = (TimbradoConfigForm_save post)
             \<lparr>TimbradoConfig.pk := Some (nuevo_pk cfgs), TimbradoConfig.activo := True,
              creado_por := Some (uid user), TimbradoConfig.fecha_creacion := now\<rparr>
           # cfgs"
proof -
  from is_valid_Valido_sin_activa [OF assms(2)] have "get_activo cfgs = None"
    by (simp add: get_activo_def find_None_iff filter_empty_conv)
  with assms show ?thesis
    by (simp add: timbrado_configurar_def Let_def TimbradoConfig_save_def TimbradoConfigForm_save_def)
qed

lemma timbrado_configurar_bien_formada:
  assumes inv: "tabla_bien_formada cfgs"
  shows "tabla_bien_formada (fst (timbrado_configurar now user metodo post cfgs))"
proof (cases "es_staff_o_superuser user \<and> metodo = POST
    \<and> TimbradoConfigForm_is_valid cfgs
           (get_activo cfgs \<noteq> None
            \<and> \<not> (case get_activo cfgs of None \<Rightarrow> False | Some c \<Rightarrow> fecha_vencimiento c < date_of now))
           post = Valido")
  case True
  then have v: "TimbradoConfigForm_is_valid cfgs
           (get_activo cfgs \<noteq> None
            \<and> \<not> (case get_activo cfgs of None \<Rightarrow> False | Some c \<Rightarrow> fecha_vencimiento c < date_of now))
           post = Valido" and s: "es_staff_o_superuser user" and m: "metodo = POST"
    by simp_all
  from is_valid_Valido_sin_activa [OF v] have e: "filter TimbradoConfig.activo cfgs = []" .
  from inv e nuevo_pk_fresh [of cfgs]
  have "tabla_bien_formada ((TimbradoConfigForm_save post)
             \<lparr>TimbradoConfig.pk := Some (nuevo_pk cfgs), TimbradoConfig.activo := True,
              creado_por := Some (uid user), TimbradoConfig.fecha_creacion := now\<rparr>
           # cfgs)"
    by (simp add: tabla_bien_formada_def)
  with timbrado_configurar_valido [OF s v] m show ?thesis by simp
next
  case False
  then have "fst (timbrado_configurar now user metodo post cfgs) = cfgs"
    by (auto simp: timbrado_configurar_def Let_def split: veredicto.splits)
  with inv show ?thesis by simp
qed

lemma alcanzable_bien_formada: "alcanzable cfgs \<Longrightarrow> tabla_bien_formada cfgs"
proof (induction rule: alcanzable.induct)
  case vacio
  show ?case by (simp add: tabla_bien_formada_def)
next
  case (validado cfgs now self cfgs')
  then show ?case using guardar_validado_bien_formada by blast
next
  case (configurar cfgs now user metodo post cfgs')
  then show ?case using timbrado_configurar_bien_formada by blast
qed

text \<open>
  The part of the invariant that the code keeps: in every table reachable from the empty
  one through validated saves and through the configuration view at most one configuration
  is active, and validation rejects an active instance whenever the table holds an active
  row other than the instance itself.
\<close>

lemma alcanzable_unico_activo:
  assumes "alcanzable cfgs"
  shows "length (filter TimbradoConfig.activo cfgs) \<le> 1"
  using alcanzable_bien_formada [OF assms] by (simp add: tabla_bien_formada_def)

lemma TimbradoConfig_clean_rechaza:
  assumes "TimbradoConfig.activo self"
    and "r \<in> set cfgs" and "TimbradoConfig.activo r"
    and "TimbradoConfig.pk r \<noteq> TimbradoConfig.pk self"
  shows "TimbradoConfig_clean cfgs self = Inl Ya_existe_activa"
  using assms
  by (auto simp: TimbradoConfig_clean_def TimbradoConfig_clean_atributos_def Let_def filter_empty_conv)

text \<open>
  C1.  The replacement does not take place.  The table holds one active configuration that
  has not expired; a staff user submits a well-formed configuration with the confirmation
  ticked.  The same submission is valid on the empty table, where the view creates the
  configuration.  On the table with the active configuration the form is invalid, because
  the validation of the model runs on the new instance, which is active by default, while
  the old configuration is still active; the view reports the form errors and the table is
  what it was: the old configuration is still the active one and no row was added.
\<close>

theorem timbrado_configurar_no_reemplaza:
  "es_staff_o_superuser admin_demo
   \<and> get_activo cfgs_demo = Some (hd cfgs_demo)
   \<and> date_of (120, 0) < fecha_vencimiento (hd cfgs_demo)
   \<and> post_confirmar_reemplazo post_demo
   \<and> TimbradoConfigForm_is_valid [] False post_demo = Valido
   \<and> fst (timbrado_configurar (100, 0) admin_demo POST post_demo []) = cfgs_demo
   \<and> TimbradoConfigForm_is_valid cfgs_demo True post_demo = Invalido
   \<and> timbrado_configurar (120, 0) admin_demo POST post_demo cfgs_demo
       = (cfgs_demo, [(ERROR, Corrija_errores)], Render ''facturacion/timbrado_config_form.html'')"
  by (simp add: timbrado_configurar_def TimbradoConfigForm_is_valid_def
        TimbradoConfig_clean_atributos_def TimbradoConfigForm_save_def TimbradoConfig_save_def
        nuevo_pk_def get_activo_def es_staff_o_superuser_def tres_digitos_def is_digit_def
        date_of_def cfgs_demo_def post_demo_def admin_demo_def Let_def)

subsection \<open>C2: numbering under an active timbrado configuration\<close>

text \<open>
  C2.  The generator under the active configuration 001-002, on the empty table, on a table
  whose greatest number with that prefix is 001-002-00000041, and at the end of the
  eight-digit range.  With the invoice 001-002-99999999 in the table the number it returns
  carries the nine-digit counter 100000000.  Once that number is stored as well, the
  greatest number with the prefix is still 001-002-99999999, since the comparison is one of
  character strings, and the generator returns 001-002-100000000 again, a number that the
  table already holds.
\<close>

theorem generar_numero_factura_timbrado_desborde:
  "get_activo cfgs_demo = Some (hd cfgs_demo)
   \<and> establecimiento (hd cfgs_demo) = ''001'' \<and> punto_expedicion (hd cfgs_demo) = ''002''
   \<and> generar_numero_factura 1000 1762200000 cfgs_demo [] = ''001-002-00000001''
   \<and> generar_numero_factura 1000 1762200000 cfgs_demo
         [factura_demo, factura_demo\<lparr>numero_factura := ''001-002-00000041''\<rparr>,
          factura_demo\<lparr>numero_factura := ''001-002-00000007''\<rparr>]
       = ''001-002-00000042''
   \<and> generar_numero_factura 1000 1762200000 cfgs_demo
         [factura_demo\<lparr>numero_factura := ''001-002-99999999''\<rparr>]
       = ''001-002-100000000''
   \<and> length ''100000000'' = 9
   \<and> generar_numero_factura 1000 1762200000 cfgs_demo
         [factura_demo\<lparr>numero_factura := ''001-002-99999999''\<rparr>,
          factura_demo\<lparr>numero_factura := ''001-002-100000000''\<rparr>]
       = ''001-002-100000000''"
  by code_simp

subsection \<open>C3: legacy numbering without an active timbrado configuration\<close>

text \<open>
  C3.  The generator without an active configuration, on the empty table, on a table of
  legacy numbers, and at the two inputs where it leaves the format.  The legacy branch
  takes the maximum over every invoice number, whatever its format, whereas the timbrado
  branch restricts the maximum to its own prefix: with only the invoice 001-001-00000005 in
  the table, which is not of the form FAC-XXXXXX, the legacy number continues that counter
  (FAC-000006) instead of starting from the configured initial value (FAC-001000); the
  timbrado branch, given only the invoice FAC-001004, starts its own counter at 1.  With
  the invoice FAC-999999 in the table the number returned is FAC-1000000, of seven digits.
\<close>

theorem generar_numero_factura_legacy_divergencia:
  "get_activo [] = None
   \<and> generar_numero_factura 1000 1762200000 [] [] = ''FAC-001000''
   \<and> generar_numero_factura 1000 1762200000 []
         [factura_demo\<lparr>numero_factura := ''FAC-001004''\<rparr>,
          factura_demo\<lparr>numero_factura := ''FAC-001003''\<rparr>]
       = ''FAC-001005''
   \<and> generar_numero_factura 1000 1762200000 []
         [factura_demo\<lparr>numero_factura := ''001-001-00000005''\<rparr>]
       = ''FAC-000006''
   \<and> generar_numero_factura 1000 1762200000 cfgs_demo
         [factura_demo\<lparr>numero_factura := ''FAC-001004''\<rparr>]
       = ''001-002-00000001''
   \<and> generar_numero_factura 1000 1762200000 []
         [factura_demo\<lparr>numero_factura := ''FAC-999999''\<rparr>]
       = ''FAC-1000000''
   \<and> length ''1000000'' = 7"
  by code_simp

subsection \<open>C4: totals after saving a line item\<close>


lemma dos_decimales_iff: "dos_decimales v \<longleftrightarrow> (\<exists>n::int. v * 100 = of_int n)"
proof
  assume "dos_decimales v"
  then have "v * 100 = of_int \<lfloor>v * 100\<rfloor>" unfolding dos_decimales_def by (rule sym)
  then show "\<exists>n::int. v * 100 = of_int n" ..
next
  assume "\<exists>n::int. v * 100 = of_int n"
  then obtain n :: int where "v * 100 = of_int n" ..
  then show "dos_decimales v" unfolding dos_decimales_def by simp
qed


lemma format_number_Some_dos:
  assumes "format_number m 2 v = Some w"
  shows "dos_decimales w"
proof -
  from assms have "w = of_int (round_half_even (v * 10\<^sup>2)) / 100"
    by (auto simp: format_number_def Let_def split: if_splits)
  then have "w * 100 = of_int (round_half_even (v * 10\<^sup>2))" by simp
  then show ?thesis unfolding dos_decimales_iff ..
qed














text \<open>
  Two saves that raise.  A line of 1000 units at 10000000.00 has a subtotal of 13 digits:
  the line is refused and nothing is stored.  A line of 950 units at 10000000.00 is stored,
  but the total of the invoice would have 13 digits: the recomputation fails, the line
  stays and the invoice keeps its former amounts.
\<close>

lemma DetalleFactura_save_desborde:
  "DetalleFactura_save (linea_demo\<lparr>cantidad := 1000, precio_unitario := 10000000\<rparr>)
       ([], [factura_demo])
     = (Some Error_al_guardar_detalle, ([], [factura_demo]))
   \<and> DetalleFactura_save (linea_demo\<lparr>cantidad := 950, precio_unitario := 10000000\<rparr>)
       ([], [factura_demo])
     = (Some Error_al_guardar_detalle,
        ([linea_demo\<lparr>DetalleFactura.pk := Some 1, cantidad := 950, precio_unitario := 10000000,
                      DetalleFactura.subtotal := 9500000000\<rparr>],
         [factura_demo]))"
  by code_simp

subsection \<open>C5: a created invoice is never ANULADA\<close>

lemma nuevo_pk_factura_fresh: "f \<in> set fs \<Longrightarrow> Factura.pk f < nuevo_pk_factura fs"
proof -
  assume "f \<in> set fs"
  then have "Factura.pk f \<in> set (map Factura.pk fs)" by simp
  from foldr_max_ge [OF this, of 0] show ?thesis by (simp add: nuevo_pk_factura_def)
qed

lemma save_totales_head:
  assumes "Factura.pk g = Factura.pk f" and "\<forall>r\<in>set fs. Factura.pk r \<noteq> Factura.pk f"
    and "Factura_save_totales g (f # fs) = Some fs'"
  shows "\<exists>f'. fs' = f' # fs \<and> estado f' = estado f \<and> Factura.pk f' = Factura.pk f"
proof -
  have m: "map (\<lambda>r. if Factura.pk r = Factura.pk f
              then r\<lparr>Factura.subtotal := s, iva := i, total := t\<rparr>
              else r) fs = fs" for s i t
    using assms(2) by (induction fs) auto
  from assms(1,3) m show ?thesis
    by (auto simp: Factura_save_totales_def split: option.splits if_splits)
qed

lemma calcular_totales_head:
  assumes "\<forall>r\<in>set fs. Factura.pk r \<noteq> Factura.pk f" and "Factura.pk g = Factura.pk f"
    and "calcular_totales g ds (f # fs) = Inr (g', fs')"
  shows "\<exists>f'. fs' = f' # fs \<and> estado f' = estado f \<and> Factura.pk f' = Factura.pk f"
proof -
  from assms(3) obtain h where h: "Factura_save_totales h (f # fs) = Some fs'"
    and "Factura.pk h = Factura.pk g"
    by (auto simp: calcular_totales_def Let_def split: option.splits)
  with save_totales_head [OF _ assms(1) h] assms(2) show ?thesis by simp
qed

lemma DetalleFactura_save_head:
  assumes "\<forall>r\<in>set fs. Factura.pk r \<noteq> Factura.pk f"
    and "DetalleFactura_save l (ds, f # fs) = (None, (ds', fs'))"
    and "factura_id l = Some (Factura.pk f)"
  shows "\<exists>f'. fs' = f' # fs \<and> estado f' = estado f \<and> Factura.pk f' = Factura.pk f"
proof -
  let ?l0 = "l\<lparr>DetalleFactura.subtotal := of_int (cantidad l) * precio_unitario l\<rparr>"
  from assms(2) obtain l1 ds1 where ss: "DetalleFactura_super_save ?l0 ds (f # fs) = Some (l1, ds1)"
    by (auto simp: DetalleFactura_save_def Let_def split: option.splits)
  then have fl: "factura_id l1 = Some (Factura.pk f)"
    using assms(3)
    by (auto simp: DetalleFactura_super_save_def Let_def split: option.splits if_splits)
  have g: "get_factura (Factura.pk f) (f # fs) = Some f" by (simp add: get_factura_def)
  show ?thesis
  proof (cases "Factura.pk f = 0")
    case True
    with assms(2) ss fl have "fs' = f # fs" by (simp add: DetalleFactura_save_def Let_def)
    then show ?thesis by simp
  next
    case False
    with assms(2) ss fl g obtain g' where "calcular_totales f ds1 (f # fs) = Inr (g', fs')"
      by (auto simp: DetalleFactura_save_def Let_def split: sum.splits)
    from calcular_totales_head [OF assms(1) refl this] show ?thesis .
  qed
qed

lemma formset_save_head:
  assumes "\<forall>r\<in>set fs. Factura.pk r \<noteq> Factura.pk f"
    and "formset_save (Factura.pk f) ls (ds, f # fs) = Inr (ds', fs')"
  shows "\<exists>f'. fs' = f' # fs \<and> estado f' = estado f \<and> Factura.pk f' = Factura.pk f"
  using assms
proof (induction ls arbitrary: ds f)
  case Nil
  then show ?case by auto
next
  case (Cons l ls)
  from Cons.prems(2) obtain ds1 fs1 where
    s1: "DetalleFactura_save (l\<lparr>factura_id := Some (Factura.pk f)\<rparr>) (ds, f # fs) = (None, (ds1, fs1))"
    and s2: "formset_save (Factura.pk f) ls (ds1, fs1) = Inr (ds', fs')"
    by (auto split: prod.splits option.splits)
  from DetalleFactura_save_head [OF Cons.prems(1) s1] obtain f1 where
    f1: "fs1 = f1 # fs" "estado f1 = estado f" "Factura.pk f1 = Factura.pk f" by auto
  from Cons.prems(1) f1 have p: "\<forall>r\<in>set fs. Factura.pk r \<noteq> Factura.pk f1" by simp
  from s2 f1 have "formset_save (Factura.pk f1) ls (ds1, f1 # fs) = Inr (ds', fs')" by simp
  from Cons.IH [OF p this] f1 show ?case by auto
qed

lemma FacturaForm_estado_creacion:
  "FacturaForm_estado True user raw = Inr e
   \<Longrightarrow> e = Some raw \<and> (raw = ''PENDIENTE'' \<or> raw = ''PAGADA'')"
  by (auto simp: FacturaForm_estado_def estado_choices_def clean_estado_def split: if_splits)

lemma FacturaForm_estado_anulada: "FacturaForm_estado True user ''ANULADA'' = Inl ()"
  by (simp add: FacturaForm_estado_def estado_choices_def)

lemma crear_factura_atomic_estado:
  assumes "crear_factura_atomic now user post lineas inicio time_time cfgs (fs, ds)
           = Inr (factura, (fs', ds'))"
    and "FacturaForm_is_valid True (Some user) clientes post"
  shows "\<exists>f. fs' = f # fs \<and> estado f = post_estado post
            \<and> (estado f = ''PENDIENTE'' \<or> estado f = ''PAGADA'')"
proof -
  let ?f0 = "no_anulada_en_creacion ((FacturaForm_save True (Some user) post)
               \<lparr>numero_factura := generar_numero_factura inicio time_time cfgs fs\<rparr>)"
  from assms(2) obtain e where e: "FacturaForm_estado True (Some user) (post_estado post) = Inr e"
    by (auto simp: FacturaForm_is_valid_def split: sum.splits)
  from FacturaForm_estado_creacion [OF e] e
  have es: "estado ?f0 = post_estado post"
    and pp: "post_estado post = ''PENDIENTE'' \<or> post_estado post = ''PAGADA''"
    by (auto simp: FacturaForm_save_def no_anulada_en_creacion_def)
  from assms(1) obtain f1 fs1 ds2 fs2 g' where
    i: "Factura_insert now ?f0 fs = Inr (f1, fs1)"
    and s: "formset_save (Factura.pk f1) lineas (ds, fs1) = Inr (ds2, fs2)"
    and c: "calcular_totales f1 ds2 fs2 = Inr (g', fs')"
    by (auto simp: crear_factura_atomic_def Let_def split: sum.splits prod.splits)
  from i have f1: "fs1 = f1 # fs" "estado f1 = estado ?f0" "Factura.pk f1 = nuevo_pk_factura fs"
    by (auto simp: Factura_insert_def Let_def split: if_splits)
  have fresh: "\<forall>r\<in>set fs. Factura.pk r \<noteq> Factura.pk f1"
    using nuevo_pk_factura_fresh [of _ fs] f1(3) by fastforce
  from s f1 have "formset_save (Factura.pk f1) lineas (ds, f1 # fs) = Inr (ds2, fs2)" by simp
  from formset_save_head [OF fresh this] obtain f2 where
    f2: "fs2 = f2 # fs" "estado f2 = estado f1" "Factura.pk f2 = Factura.pk f1" by auto
  from fresh f2 have fresh2: "\<forall>r\<in>set fs. Factura.pk r \<noteq> Factura.pk f2" by simp
  from c f2 have "calcular_totales f1 ds2 (f2 # fs) = Inr (g', fs')" by simp
  from calcular_totales_head [OF fresh2 _ this] f2 obtain f3 where
    "fs' = f3 # fs" "estado f3 = estado f2" by auto
  with f2 f1 es pp show ?thesis by auto
qed

text \<open>
  C5, as the claim states it, fails: a submitted ANULADA is not coerced to PENDIENTE.  The
  sample submission creates an invoice when its status is PAGADA.  The same submission with
  status ANULADA fails the status field, whose choices in creation mode are PENDIENTE and
  PAGADA only: the view reports the form errors and no invoice is created, neither as
  PENDIENTE nor otherwise.
\<close>

theorem factura_crear_anulada_counterexample:
  "FacturaForm_is_valid True (Some admin_demo) [cliente_demo] post_factura_demo
   \<and> map estado (fst (fst (factura_crear (120, 0) admin_demo POST post_factura_demo True [linea_demo]
                              1000 1762200000 cfgs_demo [cliente_demo] ([], []))))
       = [''PAGADA'']
   \<and> factura_crear (120, 0) admin_demo POST (post_factura_demo\<lparr>post_estado := ''ANULADA''\<rparr>) True
        [linea_demo] 1000 1762200000 cfgs_demo [cliente_demo] ([], [])
       = (([], []), [(ERROR, Corrija_errores_formulario)], Render ''facturacion/factura_form.html'')"
  by code_simp

text \<open>
  C5, amended.  Whatever is submitted to the creation view, the invoice table afterwards is
  either the old one or the old one with one new invoice in front, and that invoice has
  the submitted status, which is PENDIENTE or PAGADA, hence not ANULADA.  A submission with
  status ANULADA is rejected: it changes neither table, and when the request is a POST
  under a configuration in force the view reports the form errors and shows the form again.
\<close>

theorem factura_crear_nunca_anulada:
  "(post_estado post = ''ANULADA'' \<longrightarrow>
      fst (factura_crear now user metodo post formset_is_valid lineas inicio time_time cfgs clientes (fs, ds))
        = (fs, ds))
   \<and> (post_estado post = ''ANULADA'' \<and> metodo = POST
        \<and> get_activo cfgs = Some c \<and> fecha_inicio c \<le> date_of now \<and> date_of now \<le> fecha_vencimiento c
      \<longrightarrow> snd (factura_crear now user metodo post formset_is_valid lineas inicio time_time cfgs clientes (fs, ds))
            = ([(ERROR, Corrija_errores_formulario)], Render ''facturacion/factura_form.html''))
   \<and> (fst (fst (factura_crear now user metodo post formset_is_valid lineas inicio time_time cfgs clientes (fs, ds))) = fs
       \<or> (\<exists>f. fst (fst (factura_crear now user metodo post formset_is_valid lineas inicio time_time cfgs clientes (fs, ds)))
                 = f # fs
              \<and> estado f = post_estado post
              \<and> (estado f = ''PENDIENTE'' \<or> estado f = ''PAGADA'')
              \<and> estado f \<noteq> ''ANULADA''))"
proof -
  let ?r = "factura_crear now user metodo post formset_is_valid lineas inicio time_time cfgs clientes (fs, ds)"
  have inv: "post_estado post = ''ANULADA'' \<Longrightarrow> \<not> FacturaForm_is_valid True (Some user) clientes post"
    by (simp add: FacturaForm_is_valid_def FacturaForm_estado_anulada)
  have 1: "post_estado post = ''ANULADA'' \<longrightarrow> fst ?r = (fs, ds)"
    using inv by (auto simp: factura_crear_def Let_def split: option.splits)
  have 2: "post_estado post = ''ANULADA'' \<and> metodo = POST
        \<and> get_activo cfgs = Some c \<and> fecha_inicio c \<le> date_of now \<and> date_of now \<le> fecha_vencimiento c
      \<longrightarrow> snd ?r = ([(ERROR, Corrija_errores_formulario)], Render ''facturacion/factura_form.html'')"
    using inv by (auto simp: factura_crear_def Let_def)
  have 3: "fst (fst ?r) = fs
       \<or> (\<exists>f. fst (fst ?r) = f # fs \<and> estado f = post_estado post
              \<and> (estado f = ''PENDIENTE'' \<or> estado f = ''PAGADA'')
              \<and> estado f \<noteq> ''ANULADA'')"
  proof (cases "\<exists>factura fs' ds'. fst (fst ?r) = fs' \<and>
      crear_factura_atomic now user post lineas inicio time_time cfgs (fs, ds) = Inr (factura, (fs', ds'))
      \<and> FacturaForm_is_valid True (Some user) clientes post")
    case True
    then obtain factura fs' ds' where a: "fst (fst ?r) = fs'"
      "crear_factura_atomic now user post lineas inicio time_time cfgs (fs, ds) = Inr (factura, (fs', ds'))"
      "FacturaForm_is_valid True (Some user) clientes post" by blast
    from crear_factura_atomic_estado [OF a(2,3)] a(1) show ?thesis by auto
  next
    case False
    then have "fst (fst ?r) = fs"
      by (auto simp: factura_crear_def Let_def split: option.splits sum.splits if_splits)
    then show ?thesis by simp
  qed
  from 1 2 3 show ?thesis by blast
qed

theorem factura_crear_nunca_anulada_witness:
  "(\<exists>f. fst (fst (factura_crear (120, 0) admin_demo POST post_factura_demo True [linea_demo]
                     1000 1762200000 cfgs_demo [cliente_demo] ([], []))) = [f]
        \<and> estado f = ''PAGADA'')
   \<and> post_estado (post_factura_demo\<lparr>post_estado := ''ANULADA''\<rparr>) = ''ANULADA''
   \<and> get_activo cfgs_demo = Some (hd cfgs_demo)
   \<and> fecha_inicio (hd cfgs_demo) \<le> date_of (120, 0)
   \<and> date_of (120, 0) \<le> fecha_vencimiento (hd cfgs_demo)
   \<and> fst (factura_crear (120, 0) admin_demo POST (post_factura_demo\<lparr>post_estado := ''ANULADA''\<rparr>)
            True [linea_demo] 1000 1762200000 cfgs_demo [cliente_demo] ([], []))
       = ([], [])
   \<and> snd (factura_crear (120, 0) admin_demo POST (post_factura_demo\<lparr>post_estado := ''ANULADA''\<rparr>)
            True [linea_demo] 1000 1762200000 cfgs_demo [cliente_demo] ([], []))
       = ([(ERROR, Corrija_errores_formulario)], Render ''facturacion/factura_form.html'')"
proof -
  let ?r = "factura_crear (120, 0) admin_demo POST post_factura_demo True [linea_demo]
              1000 1762200000 cfgs_demo [cliente_demo] ([], [])"
  let ?pa = "post_factura_demo\<lparr>post_estado := ''ANULADA''\<rparr>"
  have n: "length (fst (fst ?r)) = 1" by code_simp
  then have ne: "fst (fst ?r) \<noteq> []" by auto
  have pe: "post_estado post_factura_demo = ''PAGADA''" by (simp add: post_factura_demo_def)
  note t1 = factura_crear_nunca_anulada [of post_factura_demo "(120, 0)" admin_demo POST True
      "[linea_demo]" 1000 1762200000 cfgs_demo "[cliente_demo]" "[]" "[]" "hd cfgs_demo"]
  from t1 ne obtain f where "fst (fst ?r) = [f]" "estado f = post_estado post_factura_demo"
    by blast
  with pe have A: "\<exists>f. fst (fst ?r) = [f] \<and> estado f = ''PAGADA''" by simp
  have h1: "post_estado ?pa = ''ANULADA''" by simp
  have h2: "get_activo cfgs_demo = Some (hd cfgs_demo)" by (simp add: get_activo_def cfgs_demo_def)
  have h3: "fecha_inicio (hd cfgs_demo) \<le> date_of (120, 0)"
    and h4: "date_of (120, 0) \<le> fecha_vencimiento (hd cfgs_demo)"
    by (simp_all add: cfgs_demo_def date_of_def)
  note t2 = factura_crear_nunca_anulada [of ?pa "(120, 0)" admin_demo POST True
      "[linea_demo]" 1000 1762200000 cfgs_demo "[cliente_demo]" "[]" "[]" "hd cfgs_demo"]
  from t2 h1 have B: "fst (factura_crear (120, 0) admin_demo POST ?pa
            True [linea_demo] 1000 1762200000 cfgs_demo [cliente_demo] ([], [])) = ([], [])"
    by blast
  from t2 h1 h2 h3 h4 have C: "snd (factura_crear (120, 0) admin_demo POST ?pa
            True [linea_demo] 1000 1762200000 cfgs_demo [cliente_demo] ([], []))
       = ([(ERROR, Corrija_errores_formulario)], Render ''facturacion/factura_form.html'')"
    by blast
  show ?thesis
    by (intro conjI) (rule A h1 h2 h3 h4 B C)+
qed

text \<open>A complete run of the creation view on the sample data.\<close>

lemma factura_crear_demo:
  "map (\<lambda>f. (numero_factura f, estado f, Factura.subtotal f, iva f, total f))
     (fst (fst (factura_crear (120, 0) admin_demo POST post_factura_demo True [linea_demo]
                  1000 1762200000 cfgs_demo [cliente_demo] ([], []))))
   = [(''001-002-00000001'', ''PAGADA'', 3015 / 100, 302 / 100, 3316 / 100)]"
  by code_simp

subsection \<open>C9: the detail table of the sales report\<close>

text \<open>
  C9, as the claim states it, fails in what the note says: for 60 matching invoices the note
  reads "Mostrando las primeras 50 de 60 facturas".  It names the number shown and the
  total, not the number of invoices left out, which is 10.
\<close>

theorem generar_reporte_ventas_counterexample:
  "italicas (generar_reporte_ventas (\<lambda>d. ''01/01/2025'') (\<lambda>m. ''0'')
               (replicate 60 (factura_demo, cliente_demo)) None None)
     = [''Mostrando las primeras 50 de 60 facturas'']
   \<and> dec (60 - 50) = ''10''"
  by code_simp

lemma tablas_append: "tablas (a @ b) = tablas a @ tablas b"
  by (simp add: tablas_def)

lemma italicas_append: "italicas (a @ b) = italicas a @ italicas b"
  by (simp add: italicas_def)

lemma tablas_resumen:
  "length (tablas (elementos_resumen strftime moneda facturas fecha_desde fecha_hasta)) = 1"
  by (simp add: elementos_resumen_def tablas_def Let_def)

lemma italicas_resumen:
  "italicas (elementos_resumen strftime moneda facturas fecha_desde fecha_hasta) = []"
  by (simp add: elementos_resumen_def italicas_def Let_def)

lemma tablas_nota: "tablas (elementos_nota facturas) = []"
  by (auto simp: elementos_nota_def tablas_def)

lemma italicas_nota:
  "italicas (elementos_nota facturas)
   = (if 50 < length facturas
      then [''Mostrando las primeras 50 de '' @ dec (int (length facturas)) @ '' facturas'']
      else [])"
  by (simp add: elementos_nota_def italicas_def)

text \<open>
  C9, amended.  The document has two tables, and the second, the detail table, is the
  header row followed by one row for each of the first min(n, 50) matching invoices, n
  being the number of matches; row i holds the number of invoice i, its formatted date, its
  customer's name cut to 30 characters, the label of its status and its formatted total.
  The document has an italic paragraph if and only if n > 50, and then exactly one, whose
  text says that the first 50 of n invoices are shown.
\<close>

theorem generar_reporte_ventas_detalle:
  "tablas (generar_reporte_ventas strftime moneda facturas fecha_desde fecha_hasta) ! 1
     = hd (detalle_data strftime moneda facturas)
       # map (fila_detalle strftime moneda) (take 50 facturas)
   \<and> length (tablas (generar_reporte_ventas strftime moneda facturas fecha_desde fecha_hasta)) = 2
   \<and> length (map (fila_detalle strftime moneda) (take 50 facturas)) = min (length facturas) 50
   \<and> (\<forall>i < min (length facturas) 50.
         map (fila_detalle strftime moneda) (take 50 facturas) ! i
         = [numero_factura (fst (facturas ! i)),
            strftime (fecha_emision (fst (facturas ! i))),
            take 30 (nombre (snd (facturas ! i))),
            get_estado_display (fst (facturas ! i)),
            moneda (total (fst (facturas ! i)))])
   \<and> italicas (generar_reporte_ventas strftime moneda facturas fecha_desde fecha_hasta)
       = (if 50 < length facturas
          then [''Mostrando las primeras 50 de '' @ dec (int (length facturas)) @ '' facturas'']
          else [])
   \<and> (italicas (generar_reporte_ventas strftime moneda facturas fecha_desde fecha_hasta) \<noteq> []
        \<longleftrightarrow> 50 < length facturas)"
proof -
  let ?g = "generar_reporte_ventas strftime moneda facturas fecha_desde fecha_hasta"
  let ?res = "elementos_resumen strftime moneda facturas fecha_desde fecha_hasta"
  from tablas_resumen [of strftime moneda facturas fecha_desde fecha_hasta]
  obtain x where x: "tablas ?res = [x]"
    by (cases "tablas ?res") auto
  have t1: "tablas [Table (detalle_data strftime moneda facturas)]
            = [detalle_data strftime moneda facturas]"
    by (simp add: tablas_def)
  have "tablas ?g = tablas ?res @ tablas [Table (detalle_data strftime moneda facturas)]
                    @ tablas (elementos_nota facturas)"
    by (simp only: generar_reporte_ventas_def tablas_append)
  then have t: "tablas ?g = [x, detalle_data strftime moneda facturas]"
    by (simp only: x t1 tablas_nota) simp
  have i1: "italicas [Table (detalle_data strftime moneda facturas)] = []"
    by (simp add: italicas_def)
  have "italicas ?g = italicas ?res @ italicas [Table (detalle_data strftime moneda facturas)]
                    @ italicas (elementos_nota facturas)"
    by (simp only: generar_reporte_ventas_def italicas_append)
  then have i: "italicas ?g = (if 50 < length facturas
          then [''Mostrando las primeras 50 de '' @ dec (int (length facturas)) @ '' facturas'']
          else [])"
    by (simp only: italicas_resumen i1 italicas_nota) simp
  have r: "\<forall>i < min (length facturas) 50.
         map (fila_detalle strftime moneda) (take 50 facturas) ! i
         = [numero_factura (fst (facturas ! i)),
            strftime (fecha_emision (fst (facturas ! i))),
            take 30 (nombre (snd (facturas ! i))),
            get_estado_display (fst (facturas ! i)),
            moneda (total (fst (facturas ! i)))]"
    by (simp add: fila_detalle_def Let_def)
  have 1: "tablas ?g ! 1 = hd (detalle_data strftime moneda facturas)
       # map (fila_detalle strftime moneda) (take 50 facturas)"
    unfolding t by (simp add: detalle_data_def)
  have 2: "length (tablas ?g) = 2" unfolding t by simp
  have 3: "length (map (fila_detalle strftime moneda) (take 50 facturas)) = min (length facturas) 50"
    by simp
  have 5: "italicas ?g \<noteq> [] \<longleftrightarrow> 50 < length facturas" unfolding i by simp
  from 1 2 3 r i 5 show ?thesis by blast
qed

theorem generar_reporte_ventas_detalle_witness:
  "tablas (generar_reporte_ventas (\<lambda>d. ''01/01/2025'') (\<lambda>m. ''0'')
            [(factura_demo, cliente_demo\<lparr>nombre := replicate 40 (CHR ''x'')\<rparr>)] None None) ! 1
     = [''N'' @ [CHR 0xBA] @ '' Factura'', ''Fecha'', ''Cliente'', ''Estado'', ''Total'']
       # [[''001-001-00000001'', ''01/01/2025'', replicate 30 (CHR ''x''), ''Pendiente'', ''0'']]
   \<and> italicas (generar_reporte_ventas (\<lambda>d. ''01/01/2025'') (\<lambda>m. ''0'')
            [(factura_demo, cliente_demo\<lparr>nombre := replicate 40 (CHR ''x'')\<rparr>)] None None) = []
   \<and> italicas (generar_reporte_ventas (\<lambda>d. ''01/01/2025'') (\<lambda>m. ''0'')
            (replicate 51 (factura_demo, cliente_demo)) None None)
       = [''Mostrando las primeras 50 de '' @ dec 51 @ '' facturas'']"
proof -
  let ?fs = "[(factura_demo, cliente_demo\<lparr>nombre := replicate 40 (CHR ''x'')\<rparr>)]"
  note t = generar_reporte_ventas_detalle [of "\<lambda>d. ''01/01/2025''" "\<lambda>m. ''0''" ?fs None None]
  have h: "hd (detalle_data (\<lambda>d. ''01/01/2025'') (\<lambda>m. ''0'') ?fs)
           = [''N'' @ [CHR 0xBA] @ '' Factura'', ''Fecha'', ''Cliente'', ''Estado'', ''Total'']"
    by (simp add: detalle_data_def)
  have f: "map (fila_detalle (\<lambda>d. ''01/01/2025'') (\<lambda>m. ''0'')) (take 50 ?fs)
           = [[''001-001-00000001'', ''01/01/2025'', replicate 30 (CHR ''x''), ''Pendiente'', ''0'']]"
    by code_simp
  have n: "\<not> 50 < length ?fs" by simp
  from t have "tablas (generar_reporte_ventas (\<lambda>d. ''01/01/2025'') (\<lambda>m. ''0'') ?fs None None) ! 1
     = hd (detalle_data (\<lambda>d. ''01/01/2025'') (\<lambda>m. ''0'') ?fs)
       # map (fila_detalle (\<lambda>d. ''01/01/2025'') (\<lambda>m. ''0'')) (take 50 ?fs)"
    by blast
  then have 1: "tablas (generar_reporte_ventas (\<lambda>d. ''01/01/2025'') (\<lambda>m. ''0'') ?fs None None) ! 1
     = [''N'' @ [CHR 0xBA] @ '' Factura'', ''Fecha'', ''Cliente'', ''Estado'', ''Total'']
       # [[''001-001-00000001'', ''01/01/2025'', replicate 30 (CHR ''x''), ''Pendiente'', ''0'']]"
    unfolding h f by simp
  from t n have 2: "italicas (generar_reporte_ventas (\<lambda>d. ''01/01/2025'') (\<lambda>m. ''0'') ?fs None None) = []"
    by meson
  have m: "50 < length (replicate 51 (factura_demo, cliente_demo))" by simp
  from generar_reporte_ventas_detalle [of "\<lambda>d. ''01/01/2025''" "\<lambda>m. ''0''"
      "replicate 51 (factura_demo, cliente_demo)" None None] m
  have 3: "italicas (generar_reporte_ventas (\<lambda>d. ''01/01/2025'') (\<lambda>m. ''0'')
            (replicate 51 (factura_demo, cliente_demo)) None None)
       = [''Mostrando las primeras 50 de '' @ dec 51 @ '' facturas'']"
    by simp
  from 1 2 3 show ?thesis by blast
qed

end
